theory Spec2Isabelle
  imports Complex_Main "HOL-Library.AList"
begin

section \<open>Data model\<close>

text \<open>
  The credit analyzer (hook \<open>useCreditAnalysis\<close>) and the fact normalizer
  (\<open>normalizeFinancials\<close> of the edge function) are embedded as pure functions.
  A JavaScript \<open>number\<close> is modelled as a rational, and the arithmetic of the ratio
  formulas and of the score is exact. Where the hook compares a ratio with a benchmark
  multiplied by a decimal factor (status classification and the leverage rule), the result
  depends on IEEE rounding at the threshold itself, and the comparison is modelled on
  doubles: see \<open>toDouble\<close> and \<open>fmul\<close> below. A field of type \<open>number | null\<close> is a
  \<open>rat option\<close>; \<open>None\<close> stands for both \<open>null\<close> and \<open>undefined\<close>, which
  every test of the analyzer (truthiness, \<open>?? null\<close>) treats alike. Fiscal years are
  integers.
\<close>

subsection \<open>Doubles\<close>

text \<open>
  \<open>toDouble x\<close> is the IEEE 754 binary64 value nearest to the rational \<open>x\<close>, ties to
  even: 53 significant bits, subnormals below \<open>2 ^ (-1022)\<close>; it is the value a decimal literal
  such as \<open>2.2\<close> or \<open>0.9\<close> denotes, and the value of a ratio computed by one division.
  Magnitudes beyond the largest double (which JavaScript turns into \<open>Infinity\<close>) are
  outside the model. \<open>bitLength n\<close> is the number of binary digits of \<open>n\<close>,
  \<open>ilog2 a\<close> the integer part of the binary logarithm of a positive \<open>a\<close>, and
  \<open>fmul a b\<close> the JavaScript product \<open>a * b\<close> of two doubles.
\<close>

function bitLength :: "int \<Rightarrow> int" where
  "bitLength n = (if n \<le> 0 then 0 else 1 + bitLength (n div 2))"
  by pat_completeness auto

termination
  by (relation "measure nat") auto

declare bitLength.simps [simp del]

definition pow2 :: "int \<Rightarrow> rat" where
  "pow2 k = (if k \<ge> 0 then 2 ^ nat k else 1 / 2 ^ nat (- k))"

definition ilog2 :: "rat \<Rightarrow> int" where
  "ilog2 a = (if a \<ge> 1 then bitLength \<lfloor>a\<rfloor> - 1 else - bitLength (\<lceil>1 / a\<rceil> - 1))"

definition roundHalfEven :: "rat \<Rightarrow> int" where
  "roundHalfEven m =
     (let n = \<lfloor>m\<rfloor>; r = m - of_int n
      in if r < 1 / 2 then n else if r > 1 / 2 then n + 1 else if even n then n else n + 1)"

definition toDouble :: "rat \<Rightarrow> rat" where
  "toDouble x =
     (if x = 0 then 0
      else (let a = \<bar>x\<bar>; q = max (ilog2 a - 52) (- 1074)
            in sgn x * of_int (roundHalfEven (a / pow2 q)) * pow2 q))"

definition fmul :: "rat \<Rightarrow> rat \<Rightarrow> rat" where
  "fmul a b = toDouble (toDouble a * toDouble b)"

subsection \<open>Records of the program\<close>

record FiscalYearData =
  year :: int
  revenue :: "rat option"
  netIncome :: "rat option"
  totalAssets :: "rat option"
  totalLiabilities :: "rat option"
  stockholdersEquity :: "rat option"
  operatingCashFlow :: "rat option"
  ebitda :: "rat option"
  grossProfit :: "rat option"
  operatingIncome :: "rat option"
  longTermDebt :: "rat option"
  currentAssets :: "rat option"
  currentLiabilities :: "rat option"
  cashAndEquivalents :: "rat option"

record MetricData =
  md_end :: string
  md_val :: rat
  md_fy :: int
  md_form :: string
  md_filed :: string

record NormalizedFinancials =
  cik :: string
  entityName :: string
  ticker :: string
  sicCode :: "string option"
  fiscalYears :: "FiscalYearData list"
  rawMetrics :: "string \<rightharpoonup> MetricData list"

datatype Status = StatusGood | StatusWarning | StatusCritical

datatype Severity = SevLow | SevMedium | SevHigh | SevCritical

datatype PeerStatus = Above | At | Below

datatype ScoreCategory = Excellent | CatGood | Fair | Poor | CatCritical

record CreditRatio =
  cr_name :: string
  cr_value :: "rat option"
  cr_benchmark :: rat
  cr_status :: Status
  cr_description :: string
  cr_formula :: string

text \<open>
  The \<open>description\<close> of a risk flag is display text built with \<open>toFixed\<close> from a
  ratio value; it is not modelled. All other fields are.
\<close>

record RiskFlag =
  rf_id :: string
  rf_severity :: Severity
  rf_category :: string
  rf_title :: string
  rf_impact :: string

record PeerComparison =
  pc_metric :: string
  pc_company :: "rat option"
  pc_peerAverage :: "rat option"
  pc_percentile :: "rat option"
  pc_status :: PeerStatus

record CreditAnalysis =
  overallScore :: rat
  scoreCategory :: ScoreCategory
  ratios :: "CreditRatio list"
  riskFlags :: "RiskFlag list"
  peerComparisons :: "PeerComparison list"

record Benchmarks =
  b_currentRatio :: rat
  b_debtToEquity :: rat
  b_grossMargin :: rat
  b_netMargin :: rat

record Thresholds =
  th_good :: rat
  th_warning :: rat

section \<open>Credit analyzer\<close>

definition default_benchmarks :: Benchmarks where
  "default_benchmarks =
     \<lparr>b_currentRatio = 1.5, b_debtToEquity = 1.0, b_grossMargin = 0.35, b_netMargin = 0.08\<rparr>"

definition INDUSTRY_BENCHMARKS :: "string \<rightharpoonup> Benchmarks" where
  "INDUSTRY_BENCHMARKS = map_of
     [(''73'', \<lparr>b_currentRatio = 1.8, b_debtToEquity = 0.5, b_grossMargin = 0.45, b_netMargin = 0.12\<rparr>),
      (''35'', \<lparr>b_currentRatio = 2.0, b_debtToEquity = 0.6, b_grossMargin = 0.35, b_netMargin = 0.08\<rparr>),
      (''36'', \<lparr>b_currentRatio = 2.2, b_debtToEquity = 0.4, b_grossMargin = 0.42, b_netMargin = 0.10\<rparr>),
      (''28'', \<lparr>b_currentRatio = 1.5, b_debtToEquity = 0.7, b_grossMargin = 0.55, b_netMargin = 0.15\<rparr>),
      (''60'', \<lparr>b_currentRatio = 1.2, b_debtToEquity = 8.0, b_grossMargin = 0.70, b_netMargin = 0.20\<rparr>),
      (''62'', \<lparr>b_currentRatio = 1.5, b_debtToEquity = 3.0, b_grossMargin = 0.65, b_netMargin = 0.18\<rparr>),
      (''20'', \<lparr>b_currentRatio = 1.4, b_debtToEquity = 0.8, b_grossMargin = 0.28, b_netMargin = 0.05\<rparr>),
      (''49'', \<lparr>b_currentRatio = 0.9, b_debtToEquity = 1.2, b_grossMargin = 0.40, b_netMargin = 0.10\<rparr>),
      (''default'', default_benchmarks)]"

text \<open>\<open>!sicCode\<close> holds for \<open>null\<close> and for the empty string.\<close>

definition getBenchmarks :: "string option \<Rightarrow> Benchmarks" where
  "getBenchmarks sic =
     (case sic of
        None \<Rightarrow> default_benchmarks
      | Some s \<Rightarrow>
          if s = [] then default_benchmarks
          else (case INDUSTRY_BENCHMARKS (take 2 s) of
                  Some b \<Rightarrow> b
                | None \<Rightarrow> default_benchmarks))"

text \<open>
  \<open>[...xs].sort((a, b) => b.year - a.year)\<close>: a stable sort by descending year.
  \<open>sort_key\<close> is the stable insertion sort of the list library.
\<close>

definition sortedYears :: "NormalizedFinancials \<Rightarrow> FiscalYearData list" where
  "sortedYears d = sort_key (\<lambda>r. - year r) (fiscalYears d)"

definition getLatestYearData :: "NormalizedFinancials \<Rightarrow> (int \<times> FiscalYearData) option" where
  "getLatestYearData d =
     (case sortedYears d of
        [] \<Rightarrow> None
      | r # _ \<Rightarrow> Some (year r, r))"

definition getPreviousYearData :: "NormalizedFinancials \<Rightarrow> (int \<times> FiscalYearData) option" where
  "getPreviousYearData d =
     (case sortedYears d of
        _ # r # _ \<Rightarrow> Some (year r, r)
      | _ \<Rightarrow> None)"

text \<open>
  \<open>value >= benchmark * thresholds.good\<close> and its siblings compare doubles: the ratio
  value as a double with the double product.
\<close>

definition calculateRatioStatus :: "rat option \<Rightarrow> rat \<Rightarrow> bool \<Rightarrow> Thresholds \<Rightarrow> Status" where
  "calculateRatioStatus v benchmark higherIsBetter thresholds =
     (case v of
        None \<Rightarrow> StatusWarning
      | Some x \<Rightarrow>
          if higherIsBetter then
            (if toDouble x \<ge> fmul benchmark (th_good thresholds) then StatusGood
             else if toDouble x \<ge> fmul benchmark (th_warning thresholds) then StatusWarning
             else StatusCritical)
          else
            (if toDouble x \<le> fmul benchmark (th_good thresholds) then StatusGood
             else if toDouble x \<le> fmul benchmark (th_warning thresholds) then StatusWarning
             else StatusCritical))"

text \<open>
  JavaScript truthiness of a \<open>number | null\<close>: \<open>null\<close>, \<open>undefined\<close> and \<open>0\<close> are
  falsy (\<open>NaN\<close> does not occur among rationals).
\<close>

definition truthy :: "rat option \<Rightarrow> bool" where
  "truthy x = (case x of None \<Rightarrow> False | Some v \<Rightarrow> v \<noteq> 0)"

text \<open>The ratio values, in the order the hook computes them.\<close>

definition equity_of :: "FiscalYearData \<Rightarrow> rat option" where
  "equity_of l =
     (if truthy (totalAssets l) \<and> truthy (totalLiabilities l)
      then Some (the (totalAssets l) - the (totalLiabilities l)) else None)"

definition currentRatio_of :: "FiscalYearData \<Rightarrow> rat option" where
  "currentRatio_of l =
     (if truthy (currentAssets l) \<and> truthy (currentLiabilities l)
      then Some (the (currentAssets l) / the (currentLiabilities l)) else None)"

definition debtToEquity_of :: "FiscalYearData \<Rightarrow> rat option" where
  "debtToEquity_of l =
     (if truthy (longTermDebt l) \<and> truthy (equity_of l) \<and> the (equity_of l) > 0
      then Some (the (longTermDebt l) / the (equity_of l)) else None)"

definition netMargin_of :: "FiscalYearData \<Rightarrow> rat option" where
  "netMargin_of l =
     (if truthy (revenue l) \<and> truthy (netIncome l)
      then Some (the (netIncome l) / the (revenue l)) else None)"

definition roa_of :: "FiscalYearData \<Rightarrow> rat option" where
  "roa_of l =
     (if truthy (totalAssets l) \<and> truthy (netIncome l)
      then Some (the (netIncome l) / the (totalAssets l)) else None)"

definition roe_of :: "FiscalYearData \<Rightarrow> rat option" where
  "roe_of l =
     (if truthy (equity_of l) \<and> truthy (netIncome l) \<and> the (equity_of l) > 0
      then Some (the (netIncome l) / the (equity_of l)) else None)"

definition quickRatio_of :: "FiscalYearData \<Rightarrow> rat option" where
  "quickRatio_of l =
     (if truthy (currentAssets l) \<and> truthy (currentLiabilities l) \<and> truthy (cashAndEquivalents l)
      then Some ((the (cashAndEquivalents l)
                  + (the (currentAssets l) - the (cashAndEquivalents l)) * 0.5)
                 / the (currentLiabilities l))
      else None)"

definition computeRatios :: "Benchmarks \<Rightarrow> FiscalYearData \<Rightarrow> CreditRatio list" where
  "computeRatios benchmarks l =
     [\<lparr>cr_name = ''Current Ratio'', cr_value = currentRatio_of l,
       cr_benchmark = b_currentRatio benchmarks,
       cr_status = calculateRatioStatus (currentRatio_of l) (b_currentRatio benchmarks) True
                     \<lparr>th_good = 0.9, th_warning = 0.6\<rparr>,
       cr_description = ''Measures short-term liquidity'',
       cr_formula = ''Current Assets / Current Liabilities''\<rparr>,
      \<lparr>cr_name = ''Debt-to-Equity'', cr_value = debtToEquity_of l,
       cr_benchmark = b_debtToEquity benchmarks,
       cr_status = calculateRatioStatus (debtToEquity_of l) (b_debtToEquity benchmarks) False
                     \<lparr>th_good = 1.0, th_warning = 1.5\<rparr>,
       cr_description = ''Measures financial leverage'',
       cr_formula = ''Long-term Debt / Shareholders' Equity''\<rparr>,
      \<lparr>cr_name = ''Net Profit Margin'', cr_value = netMargin_of l,
       cr_benchmark = b_netMargin benchmarks,
       cr_status = calculateRatioStatus (netMargin_of l) (b_netMargin benchmarks) True
                     \<lparr>th_good = 0.8, th_warning = 0.5\<rparr>,
       cr_description = ''Measures profitability'',
       cr_formula = ''Net Income / Revenue''\<rparr>,
      \<lparr>cr_name = ''Return on Assets'', cr_value = roa_of l,
       cr_benchmark = 0.05,
       cr_status = calculateRatioStatus (roa_of l) 0.05 True \<lparr>th_good = 1.0, th_warning = 0.6\<rparr>,
       cr_description = ''Measures asset efficiency'',
       cr_formula = ''Net Income / Total Assets''\<rparr>,
      \<lparr>cr_name = ''Return on Equity'', cr_value = roe_of l,
       cr_benchmark = 0.15,
       cr_status = calculateRatioStatus (roe_of l) 0.15 True \<lparr>th_good = 0.9, th_warning = 0.5\<rparr>,
       cr_description = ''Measures return to shareholders'',
       cr_formula = ''Net Income / Shareholders' Equity''\<rparr>,
      \<lparr>cr_name = ''Quick Ratio'', cr_value = quickRatio_of l,
       cr_benchmark = 1.0,
       cr_status = calculateRatioStatus (quickRatio_of l) 1.0 True \<lparr>th_good = 0.9, th_warning = 0.6\<rparr>,
       cr_description = ''Measures immediate liquidity'',
       cr_formula = ''(Cash + Receivables) / Current Liabilities''\<rparr>]"

text \<open>
  The risk-flag rules. Each definition is the list of flags one \<open>if\<close> statement of the
  hook pushes (empty or a singleton); \<open>generateRiskFlags\<close> appends them in source order.
  The leverage rule compares the ratio with \<open>benchmarks.debtToEquity * 1.5\<close> and
  \<open>* 2.5\<close>, double products as in the status classification. The factor \<open>0.5\<close> of the
  profitability rule is a power of two, so that product is exact.
\<close>

definition liquidityFlags :: "FiscalYearData \<Rightarrow> RiskFlag list" where
  "liquidityFlags l =
     (case currentRatio_of l of
        None \<Rightarrow> []
      | Some x \<Rightarrow>
          if x < 1.0 then
            [\<lparr>rf_id = ''low-current-ratio'',
              rf_severity = (if x < 0.5 then SevCritical else SevHigh),
              rf_category = ''Liquidity'', rf_title = ''Low Current Ratio'',
              rf_impact = ''May struggle to pay suppliers and creditors on time.''\<rparr>]
          else [])"

definition leverageFlags :: "Benchmarks \<Rightarrow> FiscalYearData \<Rightarrow> RiskFlag list" where
  "leverageFlags benchmarks l =
     (case debtToEquity_of l of
        None \<Rightarrow> []
      | Some x \<Rightarrow>
          if toDouble x > fmul (b_debtToEquity benchmarks) 1.5 then
            [\<lparr>rf_id = ''high-leverage'',
              rf_severity =
                (if toDouble x > fmul (b_debtToEquity benchmarks) 2.5 then SevCritical
                 else SevHigh),
              rf_category = ''Leverage'', rf_title = ''High Debt Levels'',
              rf_impact = ''Increased interest expense burden and reduced financial flexibility.''\<rparr>]
          else [])"

definition profitabilityFlags :: "Benchmarks \<Rightarrow> FiscalYearData \<Rightarrow> RiskFlag list" where
  "profitabilityFlags benchmarks l =
     (case netMargin_of l of
        None \<Rightarrow> []
      | Some x \<Rightarrow>
          if x < 0 then
            [\<lparr>rf_id = ''negative-margin'', rf_severity = SevCritical,
              rf_category = ''Profitability'', rf_title = ''Negative Profit Margin'',
              rf_impact = ''Company is burning cash and may require additional financing.''\<rparr>]
          else if x < b_netMargin benchmarks * 0.5 then
            [\<lparr>rf_id = ''low-margin'', rf_severity = SevMedium,
              rf_category = ''Profitability'', rf_title = ''Below-Average Profit Margin'',
              rf_impact = ''Limited ability to reinvest in growth or weather economic downturns.''\<rparr>]
          else [])"

definition revenueFlags :: "FiscalYearData \<Rightarrow> (int \<times> FiscalYearData) option \<Rightarrow> RiskFlag list" where
  "revenueFlags l previous =
     (case previous of
        None \<Rightarrow> []
      | Some p \<Rightarrow>
          if truthy (revenue l) \<and> truthy (revenue (snd p)) then
            (let revenueGrowth = (the (revenue l) - the (revenue (snd p))) / the (revenue (snd p))
             in if revenueGrowth < - 0.1 then
                  [\<lparr>rf_id = ''revenue-decline'',
                    rf_severity = (if revenueGrowth < - 0.2 then SevCritical else SevHigh),
                    rf_category = ''Growth'', rf_title = ''Declining Revenue'',
                    rf_impact = ''May indicate loss of market share or weakening demand.''\<rparr>]
                else [])
          else [])"

definition cashFlags :: "FiscalYearData \<Rightarrow> RiskFlag list" where
  "cashFlags l =
     (if truthy (cashAndEquivalents l) \<and> truthy (totalAssets l) then
        (let cashRatio = the (cashAndEquivalents l) / the (totalAssets l)
         in if cashRatio < 0.02 then
              [\<lparr>rf_id = ''low-cash'', rf_severity = SevHigh,
                rf_category = ''Liquidity'', rf_title = ''Low Cash Reserves'',
                rf_impact = ''Limited buffer for unexpected expenses or opportunities.''\<rparr>]
            else [])
      else [])"

definition dataQualityFlags :: "FiscalYearData \<Rightarrow> RiskFlag list" where
  "dataQualityFlags l =
     (if \<not> truthy (revenue l) \<or> \<not> truthy (totalAssets l) \<or> \<not> truthy (totalLiabilities l) then
        [\<lparr>rf_id = ''incomplete-data'', rf_severity = SevMedium,
          rf_category = ''Data Quality'', rf_title = ''Incomplete Financial Data'',
          rf_impact = ''Limited ability to perform comprehensive credit analysis.''\<rparr>]
      else [])"

definition generateRiskFlags ::
  "Benchmarks \<Rightarrow> FiscalYearData \<Rightarrow> (int \<times> FiscalYearData) option \<Rightarrow> RiskFlag list" where
  "generateRiskFlags benchmarks l previous =
     liquidityFlags l @ leverageFlags benchmarks l @ profitabilityFlags benchmarks l
     @ revenueFlags l previous @ cashFlags l @ dataQualityFlags l"

text \<open>
  Peer comparisons. The percentile is \<open>Math.min(99, Math.max(1, e))\<close>; the debt-to-equity
  entry tests \<open>!== null\<close> where the other three test truthiness.
\<close>

definition peerHigher :: "string \<Rightarrow> rat option \<Rightarrow> rat \<Rightarrow> PeerComparison" where
  "peerHigher metric v bench =
     \<lparr>pc_metric = metric, pc_company = v, pc_peerAverage = Some bench,
      pc_percentile = (if truthy v then Some (min 99 (max 1 ((the v / bench) * 50))) else None),
      pc_status = (if truthy v \<and> the v \<ge> bench then Above else if truthy v then Below else At)\<rparr>"

definition peerDebtToEquity :: "rat option \<Rightarrow> rat \<Rightarrow> PeerComparison" where
  "peerDebtToEquity v bench =
     \<lparr>pc_metric = ''Debt-to-Equity'', pc_company = v, pc_peerAverage = Some bench,
      pc_percentile = (if v \<noteq> None then Some (min 99 (max 1 (100 - (the v / bench) * 50))) else None),
      pc_status = (if v \<noteq> None \<and> the v \<le> bench then Above else if v \<noteq> None then Below else At)\<rparr>"

definition computePeerComparisons :: "Benchmarks \<Rightarrow> FiscalYearData \<Rightarrow> PeerComparison list" where
  "computePeerComparisons benchmarks l =
     [peerHigher ''Current Ratio'' (currentRatio_of l) (b_currentRatio benchmarks),
      peerDebtToEquity (debtToEquity_of l) (b_debtToEquity benchmarks),
      peerHigher ''Net Margin'' (netMargin_of l) (b_netMargin benchmarks),
      peerHigher ''Return on Assets'' (roa_of l) 0.05]"

text \<open>Scoring: the \<open>map\<close> over ratios and the two \<open>reduce\<close> calls, as left folds.\<close>

definition ratioScore :: "CreditRatio \<Rightarrow> rat" where
  "ratioScore r =
     (if cr_status r = StatusGood then 100
      else if cr_status r = StatusWarning then 60
      else 20)"

definition penaltyStep :: "rat \<Rightarrow> RiskFlag \<Rightarrow> rat" where
  "penaltyStep acc flag =
     (if rf_severity flag = SevCritical then acc + 15
      else if rf_severity flag = SevHigh then acc + 10
      else if rf_severity flag = SevMedium then acc + 5
      else acc + 2)"

definition categorize :: "rat \<Rightarrow> ScoreCategory" where
  "categorize s =
     (if s \<ge> 80 then Excellent
      else if s \<ge> 65 then CatGood
      else if s \<ge> 50 then Fair
      else if s \<ge> 35 then Poor
      else CatCritical)"

definition analyse ::
  "Benchmarks \<Rightarrow> FiscalYearData \<Rightarrow> (int \<times> FiscalYearData) option \<Rightarrow> CreditAnalysis" where
  "analyse benchmarks l previous =
     (let rs = computeRatios benchmarks l;
          flags = generateRiskFlags benchmarks l previous;
          peers = computePeerComparisons benchmarks l;
          ratioScores = map ratioScore rs;
          riskPenalties = foldl penaltyStep 0 flags;
          averageRatioScore = foldl (+) 0 ratioScores / of_nat (length ratioScores);
          score = max 0 (min 100 (averageRatioScore - riskPenalties))
      in \<lparr>overallScore = score, scoreCategory = categorize score,
          ratios = rs, riskFlags = flags, peerComparisons = peers\<rparr>)"

definition useCreditAnalysis :: "NormalizedFinancials option \<Rightarrow> CreditAnalysis option" where
  "useCreditAnalysis data =
     (case data of
        None \<Rightarrow> None
      | Some d \<Rightarrow>
          (case getLatestYearData d of
             None \<Rightarrow> None
           | Some latest \<Rightarrow>
               Some (analyse (getBenchmarks (sicCode d)) (snd latest) (getPreviousYearData d))))"

section \<open>Fact normalizer\<close>

text \<open>
  The input of \<open>normalizeFinancials\<close>. An \<open>Observation\<close> is one element of
  \<open>units['USD']\<close>; its attributed fiscal year \<open>fy\<close> is an integer. The value of
  \<open>facts['us-gaap']\<close> is kept as the list of pairs \<open>Object.entries\<close> enumerates, since
  the first match in that order wins; \<open>None\<close> is the missing key, replaced by \<open>{}\<close>.
\<close>

record Observation =
  ob_start :: "string option"
  ob_end :: string
  ob_val :: rat
  ob_accn :: string
  ob_fy :: int
  ob_fp :: string
  ob_form :: string
  ob_filed :: string

record ConceptFacts =
  cf_label :: string
  cf_description :: string
  cf_units :: "string \<rightharpoonup> Observation list"

record SECCompanyFacts =
  sf_cik :: nat
  sf_entityName :: string
  sf_us_gaap :: "(string \<times> ConceptFacts) list option"

text \<open>
  \<open>Partial<FiscalYearData>\<close> of the edge function: every key may be \<open>undefined\<close>. The
  edge function's \<open>FiscalYearData\<close> has no \<open>cashAndEquivalents\<close> key.
\<close>

record YearDraft =
  d_year :: "int option"
  d_revenue :: "rat option"
  d_netIncome :: "rat option"
  d_totalAssets :: "rat option"
  d_totalLiabilities :: "rat option"
  d_stockholdersEquity :: "rat option"
  d_operatingCashFlow :: "rat option"
  d_ebitda :: "rat option"
  d_grossProfit :: "rat option"
  d_operatingIncome :: "rat option"
  d_longTermDebt :: "rat option"
  d_currentAssets :: "rat option"
  d_currentLiabilities :: "rat option"

text \<open>The normalized names that occur as values of \<open>METRIC_MAPPING\<close>.\<close>

datatype FieldName =
  FRevenue | FNetIncome | FTotalAssets | FTotalLiabilities | FStockholdersEquity
  | FOperatingCashFlow | FGrossProfit | FOperatingIncome | FLongTermDebt
  | FCurrentAssets | FCurrentLiabilities

definition METRIC_MAPPING :: "string \<rightharpoonup> FieldName" where
  "METRIC_MAPPING = map_of
     [(''Revenues'', FRevenue),
      (''RevenueFromContractWithCustomerExcludingAssessedTax'', FRevenue),
      (''SalesRevenueNet'', FRevenue),
      (''NetIncomeLoss'', FNetIncome),
      (''Assets'', FTotalAssets),
      (''Liabilities'', FTotalLiabilities),
      (''StockholdersEquity'', FStockholdersEquity),
      (''StockholdersEquityIncludingPortionAttributableToNoncontrollingInterest'', FStockholdersEquity),
      (''NetCashProvidedByUsedInOperatingActivities'', FOperatingCashFlow),
      (''GrossProfit'', FGrossProfit),
      (''OperatingIncomeLoss'', FOperatingIncome),
      (''LongTermDebt'', FLongTermDebt),
      (''LongTermDebtNoncurrent'', FLongTermDebt),
      (''AssetsCurrent'', FCurrentAssets),
      (''LiabilitiesCurrent'', FCurrentLiabilities)]"

fun get_field :: "FieldName \<Rightarrow> YearDraft \<Rightarrow> rat option" where
  "get_field FRevenue d = d_revenue d"
| "get_field FNetIncome d = d_netIncome d"
| "get_field FTotalAssets d = d_totalAssets d"
| "get_field FTotalLiabilities d = d_totalLiabilities d"
| "get_field FStockholdersEquity d = d_stockholdersEquity d"
| "get_field FOperatingCashFlow d = d_operatingCashFlow d"
| "get_field FGrossProfit d = d_grossProfit d"
| "get_field FOperatingIncome d = d_operatingIncome d"
| "get_field FLongTermDebt d = d_longTermDebt d"
| "get_field FCurrentAssets d = d_currentAssets d"
| "get_field FCurrentLiabilities d = d_currentLiabilities d"

fun set_field :: "FieldName \<Rightarrow> rat \<Rightarrow> YearDraft \<Rightarrow> YearDraft" where
  "set_field FRevenue v d = d\<lparr>d_revenue := Some v\<rparr>"
| "set_field FNetIncome v d = d\<lparr>d_netIncome := Some v\<rparr>"
| "set_field FTotalAssets v d = d\<lparr>d_totalAssets := Some v\<rparr>"
| "set_field FTotalLiabilities v d = d\<lparr>d_totalLiabilities := Some v\<rparr>"
| "set_field FStockholdersEquity v d = d\<lparr>d_stockholdersEquity := Some v\<rparr>"
| "set_field FOperatingCashFlow v d = d\<lparr>d_operatingCashFlow := Some v\<rparr>"
| "set_field FGrossProfit v d = d\<lparr>d_grossProfit := Some v\<rparr>"
| "set_field FOperatingIncome v d = d\<lparr>d_operatingIncome := Some v\<rparr>"
| "set_field FLongTermDebt v d = d\<lparr>d_longTermDebt := Some v\<rparr>"
| "set_field FCurrentAssets v d = d\<lparr>d_currentAssets := Some v\<rparr>"
| "set_field FCurrentLiabilities v d = d\<lparr>d_currentLiabilities := Some v\<rparr>"

definition newDraft :: "int \<Rightarrow> YearDraft" where
  "newDraft y = \<lparr>d_year = Some y, d_revenue = None, d_netIncome = None, d_totalAssets = None,
     d_totalLiabilities = None, d_stockholdersEquity = None, d_operatingCashFlow = None,
     d_ebitda = None, d_grossProfit = None, d_operatingIncome = None, d_longTermDebt = None,
     d_currentAssets = None, d_currentLiabilities = None\<rparr>"

text \<open>
  \<open>yearData\<close> is a JavaScript \<open>Map\<close>: an association list in insertion order, read with
  \<open>map_of\<close> and written with \<open>AList.update\<close>, which replaces the value of a present key
  in place and appends a new key at the end. \<open>initYears\<close> is the loop
  \<open>for (let year = fiscalYearStart; year <= fiscalYearEnd; year++)\<close>.
\<close>

function initYears :: "int \<Rightarrow> int \<Rightarrow> (int \<times> YearDraft) list \<Rightarrow> (int \<times> YearDraft) list" where
  "initYears yr fiscalYearEnd yearData =
     (if yr \<le> fiscalYearEnd
      then initYears (yr + 1) fiscalYearEnd (AList.update yr (newDraft yr) yearData)
      else yearData)"
  by pat_completeness auto

termination
  by (relation "measure (\<lambda>(yr, fiscalYearEnd, yearData). nat (fiscalYearEnd + 1 - yr))") auto

declare initYears.simps [simp del]

definition eligible :: "int \<Rightarrow> int \<Rightarrow> Observation \<Rightarrow> bool" where
  "eligible fiscalYearStart fiscalYearEnd v \<longleftrightarrow>
     ob_form v = ''10-K'' \<and> ob_fy v \<ge> fiscalYearStart \<and> ob_fy v \<le> fiscalYearEnd"

definition toMetricData :: "Observation \<Rightarrow> MetricData" where
  "toMetricData v = \<lparr>md_end = ob_end v, md_val = ob_val v, md_fy = ob_fy v,
     md_form = ob_form v, md_filed = ob_filed v\<rparr>"

definition usdValues :: "ConceptFacts \<Rightarrow> Observation list" where
  "usdValues data = (case cf_units data ''USD'' of Some vs \<Rightarrow> vs | None \<Rightarrow> [])"

text \<open>
  The body of the inner loop \<open>for (const value of usdValues)\<close>. The draft fetched from
  the map is updated only where the field is still \<open>undefined\<close>.
\<close>

definition applyValue ::
  "FieldName \<Rightarrow> int \<Rightarrow> int \<Rightarrow> (int \<times> YearDraft) list \<Rightarrow> Observation \<Rightarrow> (int \<times> YearDraft) list" where
  "applyValue normalizedName fiscalYearStart fiscalYearEnd yearData v =
     (if eligible fiscalYearStart fiscalYearEnd v then
        (let existing = (case map_of yearData (ob_fy v) of
                           Some x \<Rightarrow> x
                         | None \<Rightarrow> newDraft (ob_fy v))
         in if get_field normalizedName existing = None
            then AList.update (ob_fy v) (set_field normalizedName (ob_val v) existing) yearData
            else yearData)
      else yearData)"

text \<open>
  The body of the outer loop over \<open>Object.entries(usGaap)\<close>, on the pair of
  \<open>rawMetrics\<close> and \<open>yearData\<close>.
\<close>

definition processConcept ::
  "int \<Rightarrow> int \<Rightarrow> (string \<rightharpoonup> MetricData list) \<times> (int \<times> YearDraft) list
     \<Rightarrow> string \<times> ConceptFacts \<Rightarrow> (string \<rightharpoonup> MetricData list) \<times> (int \<times> YearDraft) list" where
  "processConcept fiscalYearStart fiscalYearEnd st entry =
     (let concept = fst entry;
          rawMetrics = fst st;
          yearData = snd st;
          normalizedName = METRIC_MAPPING concept;
          vs = usdValues (snd entry);
          rawMetrics' =
            (if length vs > 0
             then rawMetrics(concept \<mapsto>
                    map toMetricData (filter (eligible fiscalYearStart fiscalYearEnd) vs))
             else rawMetrics);
          yearData' =
            (case normalizedName of
               Some nm \<Rightarrow> foldl (applyValue nm fiscalYearStart fiscalYearEnd) yearData vs
             | None \<Rightarrow> yearData)
      in (rawMetrics', yearData'))"

text \<open>\<open>data.year || 0\<close>, the sort key and the year of the finished record.\<close>

definition draftYear :: "YearDraft \<Rightarrow> int" where
  "draftYear d = (case d_year d of Some y \<Rightarrow> y | None \<Rightarrow> 0)"

definition finalizeYear :: "YearDraft \<Rightarrow> FiscalYearData" where
  "finalizeYear d =
     \<lparr>year = draftYear d, revenue = d_revenue d, netIncome = d_netIncome d,
      totalAssets = d_totalAssets d, totalLiabilities = d_totalLiabilities d,
      stockholdersEquity = d_stockholdersEquity d, operatingCashFlow = d_operatingCashFlow d,
      ebitda = None, grossProfit = d_grossProfit d, operatingIncome = d_operatingIncome d,
      longTermDebt = d_longTermDebt d, currentAssets = d_currentAssets d,
      currentLiabilities = d_currentLiabilities d, cashAndEquivalents = None\<rparr>"

text \<open>
  \<open>String(facts.cik).padStart(10, '0')\<close> and \<open>ticker.toUpperCase()\<close>, for a natural
  number and for ASCII letters.
\<close>

fun string_of_nat :: "nat \<Rightarrow> string" where
  "string_of_nat n =
     (if n < 10 then [char_of (48 + n)]
      else string_of_nat (n div 10) @ [char_of (48 + n mod 10)])"

declare string_of_nat.simps [simp del]

definition padStart :: "nat \<Rightarrow> char \<Rightarrow> string \<Rightarrow> string" where
  "padStart n c s = replicate (n - length s) c @ s"

definition toUpperCase :: "string \<Rightarrow> string" where
  "toUpperCase s =
     map (\<lambda>c. if 97 \<le> (of_char c :: nat) \<and> (of_char c :: nat) \<le> 122
               then char_of ((of_char c :: nat) - 32) else c) s"

definition usGaapEntries :: "SECCompanyFacts \<Rightarrow> (string \<times> ConceptFacts) list" where
  "usGaapEntries facts = (case sf_us_gaap facts of Some es \<Rightarrow> es | None \<Rightarrow> [])"

definition normalizeFinancials ::
  "SECCompanyFacts \<Rightarrow> string \<Rightarrow> string option \<Rightarrow> int \<Rightarrow> int \<Rightarrow> NormalizedFinancials" where
  "normalizeFinancials facts tkr sic fiscalYearStart fiscalYearEnd =
     (let st = foldl (processConcept fiscalYearStart fiscalYearEnd)
                 (Map.empty, initYears fiscalYearStart fiscalYearEnd [])
                 (usGaapEntries facts);
          fys = map finalizeYear (sort_key draftYear (map snd (snd st)))
      in \<lparr>cik = padStart 10 (CHR ''0'') (string_of_nat (sf_cik facts)),
          entityName = sf_entityName facts,
          ticker = toUpperCase tkr,
          sicCode = sic,
          fiscalYears = fys,
          rawMetrics = fst st\<rparr>)"

section \<open>Notions used to state the properties\<close>

text \<open>
  The definitions of this section are not part of the program. They name the constants and
  conditions of the specification so that the theorems can be read against it.
\<close>

text \<open>The point values, penalties and clamp of the scoring rule, in the specification's words.\<close>

definition spec_ratio_points :: "Status \<Rightarrow> rat" where
  "spec_ratio_points s = (case s of StatusGood \<Rightarrow> 100 | StatusWarning \<Rightarrow> 60 | StatusCritical \<Rightarrow> 20)"

definition spec_penalty :: "Severity \<Rightarrow> rat" where
  "spec_penalty s = (case s of SevCritical \<Rightarrow> 15 | SevHigh \<Rightarrow> 10 | SevMedium \<Rightarrow> 5 | SevLow \<Rightarrow> 2)"

definition spec_clamp :: "rat \<Rightarrow> rat \<Rightarrow> rat \<Rightarrow> rat" where
  "spec_clamp x lo hi = (if x < lo then lo else if x > hi then hi else x)"

text \<open>
  \<open>absent_or_zero x\<close>: the field is null or exactly zero.
  \<open>spec_ratio_ok v isnull num den\<close>: the ratio value \<open>v\<close> is null exactly under
  \<open>isnull\<close>, and otherwise is the quotient \<open>num / den\<close> with a non-zero denominator.
\<close>

definition absent_or_zero :: "rat option \<Rightarrow> bool" where
  "absent_or_zero x = (x = None \<or> x = Some 0)"

definition spec_ratio_ok :: "rat option \<Rightarrow> bool \<Rightarrow> rat \<Rightarrow> rat \<Rightarrow> bool" where
  "spec_ratio_ok v isnull num den =
     ((v = None \<longleftrightarrow> isnull) \<and> (\<not> isnull \<longrightarrow> den \<noteq> 0 \<and> v = Some (num / den)))"

text \<open>The record of a year in which every field is null.\<close>

definition blank_year :: "int \<Rightarrow> FiscalYearData" where
  "blank_year y = \<lparr>year = y, revenue = None, netIncome = None, totalAssets = None,
     totalLiabilities = None, stockholdersEquity = None, operatingCashFlow = None, ebitda = None,
     grossProfit = None, operatingIncome = None, longTermDebt = None, currentAssets = None,
     currentLiabilities = None, cashAndEquivalents = None\<rparr>"

text \<open>Replacing a reported zero by null, in one field and in every field of a record.\<close>

definition absent_if_zero :: "rat option \<Rightarrow> rat option" where
  "absent_if_zero x = (if x = Some 0 then None else x)"

definition nullifyZeros :: "FiscalYearData \<Rightarrow> FiscalYearData" where
  "nullifyZeros r =
     \<lparr>year = year r, revenue = absent_if_zero (revenue r), netIncome = absent_if_zero (netIncome r),
      totalAssets = absent_if_zero (totalAssets r),
      totalLiabilities = absent_if_zero (totalLiabilities r),
      stockholdersEquity = absent_if_zero (stockholdersEquity r),
      operatingCashFlow = absent_if_zero (operatingCashFlow r),
      ebitda = absent_if_zero (ebitda r), grossProfit = absent_if_zero (grossProfit r),
      operatingIncome = absent_if_zero (operatingIncome r),
      longTermDebt = absent_if_zero (longTermDebt r),
      currentAssets = absent_if_zero (currentAssets r),
      currentLiabilities = absent_if_zero (currentLiabilities r),
      cashAndEquivalents = absent_if_zero (cashAndEquivalents r)\<rparr>"

text \<open>Every draft of the map carries the year it is stored under.\<close>

definition keyed :: "(int \<times> YearDraft) list \<Rightarrow> bool" where
  "keyed yearData = (\<forall>(k, p) \<in> set yearData. d_year p = Some k)"

text \<open>
  Some recognised concept has an annual observation in range attributed to year \<open>y\<close>.
\<close>

definition yearHasData :: "SECCompanyFacts \<Rightarrow> int \<Rightarrow> int \<Rightarrow> int \<Rightarrow> bool" where
  "yearHasData facts fiscalYearStart fiscalYearEnd y =
     list_ex (\<lambda>entry. METRIC_MAPPING (fst entry) \<noteq> None
                \<and> list_ex (\<lambda>v. eligible fiscalYearStart fiscalYearEnd v \<and> ob_fy v = y)
                     (usdValues (snd entry)))
       (usGaapEntries facts)"

text \<open>
  Two raw fact sets that differ at most in observations the filter rejects: same identity,
  same concepts in the same order, and per concept the same eligible observations.
  \<open>sameUsdPresence\<close>: each concept has an empty list of observations in both or in neither.
\<close>

definition sameEligible :: "int \<Rightarrow> int \<Rightarrow> SECCompanyFacts \<Rightarrow> SECCompanyFacts \<Rightarrow> bool" where
  "sameEligible fiscalYearStart fiscalYearEnd f1 f2 =
     (sf_cik f1 = sf_cik f2 \<and> sf_entityName f1 = sf_entityName f2
      \<and> list_all2 (\<lambda>e1 e2. fst e1 = fst e2
            \<and> filter (eligible fiscalYearStart fiscalYearEnd) (usdValues (snd e1))
              = filter (eligible fiscalYearStart fiscalYearEnd) (usdValues (snd e2)))
          (usGaapEntries f1) (usGaapEntries f2))"

definition sameUsdPresence :: "SECCompanyFacts \<Rightarrow> SECCompanyFacts \<Rightarrow> bool" where
  "sameUsdPresence f1 f2 =
     list_all2 (\<lambda>e1 e2. (usdValues (snd e1) = []) = (usdValues (snd e2) = []))
       (usGaapEntries f1) (usGaapEntries f2)"

section \<open>Example inputs\<close>

definition healthy_year :: FiscalYearData where
  "healthy_year = \<lparr>year = 2023, revenue = Some 1000, netIncome = Some 200, totalAssets = Some 1000,
     totalLiabilities = Some 400, stockholdersEquity = None, operatingCashFlow = None, ebitda = None,
     grossProfit = None, operatingIncome = None, longTermDebt = Some 100, currentAssets = Some 300,
     currentLiabilities = Some 100, cashAndEquivalents = Some 100\<rparr>"

definition company_of :: "FiscalYearData list \<Rightarrow> NormalizedFinancials" where
  "company_of ys = \<lparr>cik = ''0000000001'', entityName = ''Example Co'', ticker = ''EX'',
     sicCode = None, fiscalYears = ys, rawMetrics = Map.empty\<rparr>"

definition zero_assets_year :: FiscalYearData where
  "zero_assets_year = \<lparr>year = 2023, revenue = None, netIncome = None, totalAssets = None,
     totalLiabilities = None, stockholdersEquity = None, operatingCashFlow = None, ebitda = None,
     grossProfit = None, operatingIncome = None, longTermDebt = None, currentAssets = Some 0,
     currentLiabilities = Some 100, cashAndEquivalents = None\<rparr>"

definition reported_equity_year :: FiscalYearData where
  "reported_equity_year = \<lparr>year = 2023, revenue = None, netIncome = None, totalAssets = Some 1000,
     totalLiabilities = Some 500, stockholdersEquity = Some 200, operatingCashFlow = None, ebitda = None,
     grossProfit = None, operatingIncome = None, longTermDebt = Some 100, currentAssets = None,
     currentLiabilities = None, cashAndEquivalents = None\<rparr>"

definition half_ratio_year :: FiscalYearData where
  "half_ratio_year = \<lparr>year = 2023, revenue = None, netIncome = None, totalAssets = None,
     totalLiabilities = None, stockholdersEquity = None, operatingCashFlow = None, ebitda = None,
     grossProfit = None, operatingIncome = None, longTermDebt = None, currentAssets = Some 50,
     currentLiabilities = Some 100, cashAndEquivalents = None\<rparr>"

definition zero_year :: FiscalYearData where
  "zero_year = \<lparr>year = 2023, revenue = Some 0, netIncome = Some 0, totalAssets = Some 0,
     totalLiabilities = Some 0, stockholdersEquity = Some 0, operatingCashFlow = Some 0,
     ebitda = Some 0, grossProfit = Some 0, operatingIncome = Some 0, longTermDebt = Some 0,
     currentAssets = Some 0, currentLiabilities = Some 0, cashAndEquivalents = Some 0\<rparr>"

definition electronics_year :: FiscalYearData where
  "electronics_year = \<lparr>year = 2023, revenue = None, netIncome = None, totalAssets = None,
     totalLiabilities = None, stockholdersEquity = None, operatingCashFlow = None, ebitda = None,
     grossProfit = None, operatingIncome = None, longTermDebt = None, currentAssets = Some 198,
     currentLiabilities = Some 100, cashAndEquivalents = None\<rparr>"

definition chemicals_year :: FiscalYearData where
  "chemicals_year = \<lparr>year = 2023, revenue = None, netIncome = None, totalAssets = Some 200,
     totalLiabilities = Some 100, stockholdersEquity = None, operatingCashFlow = None, ebitda = None,
     grossProfit = None, operatingIncome = None, longTermDebt = Some 105, currentAssets = None,
     currentLiabilities = None, cashAndEquivalents = None\<rparr>"

definition electronics_co :: NormalizedFinancials where
  "electronics_co = \<lparr>cik = ''0000000036'', entityName = ''Example Electronics'', ticker = ''EXE'',
     sicCode = Some ''3674'', fiscalYears = [electronics_year], rawMetrics = Map.empty\<rparr>"

definition obs :: "int \<Rightarrow> string \<Rightarrow> rat \<Rightarrow> Observation" where
  "obs fy form v = \<lparr>ob_start = None, ob_end = ''12-31'', ob_val = v, ob_accn = ''0001'',
     ob_fy = fy, ob_fp = ''FY'', ob_form = form, ob_filed = ''02-15''\<rparr>"

definition concept_usd :: "Observation list \<Rightarrow> ConceptFacts" where
  "concept_usd vs = \<lparr>cf_label = ''label'', cf_description = ''description'',
     cf_units = [''USD'' \<mapsto> vs]\<rparr>"

definition facts_of :: "(string \<times> ConceptFacts) list \<Rightarrow> SECCompanyFacts" where
  "facts_of es = \<lparr>sf_cik = 320193, sf_entityName = ''Example Co'', sf_us_gaap = Some es\<rparr>"

definition demo_facts :: SECCompanyFacts where
  "demo_facts = facts_of [(''Revenues'', concept_usd [obs 2021 ''10-K'' 500, obs 2021 ''10-Q'' 120])]"

definition demo_facts_annual :: SECCompanyFacts where
  "demo_facts_annual = facts_of [(''Revenues'', concept_usd [obs 2021 ''10-K'' 500])]"

definition quarterly_only_facts :: SECCompanyFacts where
  "quarterly_only_facts = facts_of [(''Goodwill'', concept_usd [obs 2021 ''10-Q'' 75])]"

definition no_observation_facts :: SECCompanyFacts where
  "no_observation_facts = facts_of [(''Goodwill'', concept_usd [])]"

section \<open>Properties of the credit analyzer\<close>

lemmas hook_defs = useCreditAnalysis_def getLatestYearData_def getPreviousYearData_def sortedYears_def
  getBenchmarks_def default_benchmarks_def company_of_def

lemmas ratio_defs = truthy_def equity_of_def currentRatio_of_def debtToEquity_of_def netMargin_of_def
  roa_of_def roe_of_def quickRatio_of_def

lemmas flag_defs = generateRiskFlags_def liquidityFlags_def leverageFlags_def profitabilityFlags_def
  revenueFlags_def cashFlags_def dataQualityFlags_def

lemma analyse_ratios: "ratios (analyse b l p) = computeRatios b l"
  by (simp add: analyse_def Let_def)

lemma analyse_riskFlags: "riskFlags (analyse b l p) = generateRiskFlags b l p"
  by (simp add: analyse_def Let_def)

lemma analyse_category: "scoreCategory (analyse b l p) = categorize (overallScore (analyse b l p))"
  by (simp add: analyse_def Let_def)

lemma useCreditAnalysis_Some:
  assumes "useCreditAnalysis (Some d) = Some a" and "getLatestYearData d = Some (y, l)"
  shows "a = analyse (getBenchmarks (sicCode d)) l (getPreviousYearData d)"
  using assms by (simp add: useCreditAnalysis_def)

lemma useCreditAnalysis_latest:
  assumes "useCreditAnalysis data = Some a"
  obtains d y l where "data = Some d" and "getLatestYearData d = Some (y, l)"
    and "a = analyse (getBenchmarks (sicCode d)) l (getPreviousYearData d)"
  using assms by (auto simp: useCreditAnalysis_def split: option.splits)

lemma length_computeRatios: "length (computeRatios b l) = 6"
  by (simp add: computeRatios_def)

lemma hook_ratio_values:
  assumes "useCreditAnalysis (Some d) = Some a" and "getLatestYearData d = Some (y, l)"
  shows "length (ratios a) = 6"
    and "cr_value (ratios a ! 0) = currentRatio_of l"
    and "cr_value (ratios a ! 1) = debtToEquity_of l"
    and "cr_value (ratios a ! 2) = netMargin_of l"
    and "cr_value (ratios a ! 3) = roa_of l"
    and "cr_value (ratios a ! 4) = roe_of l"
    and "cr_value (ratios a ! 5) = quickRatio_of l"
proof -
  have a: "a = analyse (getBenchmarks (sicCode d)) l (getPreviousYearData d)"
    using assms by (rule useCreditAnalysis_Some)
  show "length (ratios a) = 6"
    by (simp add: a analyse_ratios length_computeRatios)
  show "cr_value (ratios a ! 0) = currentRatio_of l"
    by (simp add: a analyse_ratios computeRatios_def)
  show "cr_value (ratios a ! 1) = debtToEquity_of l"
    by (simp add: a analyse_ratios computeRatios_def)
  show "cr_value (ratios a ! 2) = netMargin_of l"
    by (simp add: a analyse_ratios computeRatios_def)
  show "cr_value (ratios a ! 3) = roa_of l"
    by (simp add: a analyse_ratios computeRatios_def)
  show "cr_value (ratios a ! 4) = roe_of l"
    by (simp add: a analyse_ratios computeRatios_def)
  show "cr_value (ratios a ! 5) = quickRatio_of l"
    by (simp add: a analyse_ratios computeRatios_def)
qed

section \<open>Status classification\<close>

text \<open>
  C6, as the code has it. A null value is classified warning. For a higher-is-better ratio
  a value at or above benchmark times the good multiplier is good, otherwise at or above
  benchmark times the warning multiplier is warning, otherwise critical; for a
  lower-is-better ratio the same holds with the comparisons inverted. The value and the
  product are doubles: the product is the IEEE product of the doubles nearest to the
  benchmark and the multiplier, rounded to nearest.
\<close>

theorem calculateRatioStatus_spec:
  "calculateRatioStatus None b h t = StatusWarning
   \<and> calculateRatioStatus (Some x) b True t =
       (if toDouble x \<ge> fmul b (th_good t) then StatusGood
        else if toDouble x \<ge> fmul b (th_warning t) then StatusWarning else StatusCritical)
   \<and> calculateRatioStatus (Some x) b False t =
       (if toDouble x \<le> fmul b (th_good t) then StatusGood
        else if toDouble x \<le> fmul b (th_warning t) then StatusWarning else StatusCritical)"
  by (simp add: calculateRatioStatus_def)

lemma double_product_electronics:
  "fmul (11 / 5) (9 / 10) = 8917127262193583 / 4503599627370496"
  "fmul (11 / 5) (3 / 5) = 5944751508129055 / 4503599627370496"
  "toDouble (99 / 50) = 4458563631096791 / 2251799813685248"
  by code_simp+

theorem calculateRatioStatus_spec_witness:
  "calculateRatioStatus None (22 / 10) True \<lparr>th_good = 9 / 10, th_warning = 6 / 10\<rparr> = StatusWarning
   \<and> calculateRatioStatus (Some (198 / 100)) (22 / 10) True \<lparr>th_good = 9 / 10, th_warning = 6 / 10\<rparr>
       = StatusWarning
   \<and> calculateRatioStatus (Some (198 / 100)) (22 / 10) False \<lparr>th_good = 9 / 10, th_warning = 6 / 10\<rparr>
       = StatusGood"
  using calculateRatioStatus_spec
    [of "22 / 10" True "\<lparr>th_good = 9 / 10, th_warning = 6 / 10\<rparr>" "198 / 100"]
  by (simp add: double_product_electronics)

text \<open>
  Read with the exact product, the rule fails on the threshold: for an electronics company
  (benchmark 2.2) with current assets 198 and current liabilities 100 the current ratio
  1.98 is at least 2.2 times 0.9, yet the status is warning, since the double product
  2.2 * 0.9 is 1.9800000000000002.
\<close>

theorem exact_threshold_counterexample:
  "cr_value (ratios (the (useCreditAnalysis (Some electronics_co))) ! 0) = Some (198 / 100)
   \<and> cr_benchmark (ratios (the (useCreditAnalysis (Some electronics_co))) ! 0) = 22 / 10
   \<and> (198 / 100 :: rat) \<ge> 22 / 10 * (9 / 10)
   \<and> cr_status (ratios (the (useCreditAnalysis (Some electronics_co))) ! 0) = StatusWarning"
proof -
  have b: "getBenchmarks (Some ''3674'') =
      \<lparr>b_currentRatio = 22 / 10, b_debtToEquity = 4 / 10, b_grossMargin = 42 / 100,
       b_netMargin = 10 / 100\<rparr>"
    by (simp add: getBenchmarks_def INDUSTRY_BENCHMARKS_def)
  have h: "useCreditAnalysis (Some electronics_co) =
      Some (analyse (getBenchmarks (Some ''3674'')) electronics_year None)"
    by (simp add: useCreditAnalysis_def getLatestYearData_def getPreviousYearData_def
        sortedYears_def electronics_co_def)
  have v: "currentRatio_of electronics_year = Some (198 / 100)"
    by (simp add: currentRatio_of_def truthy_def electronics_year_def)
  show ?thesis
    unfolding h option.sel analyse_ratios b
    by (simp add: computeRatios_def v calculateRatioStatus_def double_product_electronics)
qed

text \<open>
  The leverage rule has the same shape: for a chemicals company (benchmark 0.7) the double
  product 0.7 * 1.5 is 1.0499999999999998, so a debt-to-equity of 1.05 raises the flag.
\<close>

lemma leverage_on_threshold:
  "debtToEquity_of chemicals_year = Some (105 / 100)
   \<and> map rf_severity (leverageFlags (getBenchmarks (Some ''2834'')) chemicals_year) = [SevHigh]"
proof -
  have b: "b_debtToEquity (getBenchmarks (Some ''2834'')) = 7 / 10"
    by (simp add: getBenchmarks_def INDUSTRY_BENCHMARKS_def)
  have v: "debtToEquity_of chemicals_year = Some (21 / 20)"
    by (simp add: debtToEquity_of_def equity_of_def truthy_def chemicals_year_def)
  have d: "fmul (7 / 10) (3 / 2) < toDouble (21 / 20)" "\<not> fmul (7 / 10) (5 / 2) < toDouble (21 / 20)"
    by code_simp+
  show ?thesis
    by (simp add: leverageFlags_def b v d)
qed

section \<open>Scoring\<close>

lemma foldl_plus_sum_list: "foldl (+) a xs = a + sum_list (xs :: rat list)"
  by (induction xs arbitrary: a) (simp_all add: add.assoc)

lemma penaltyStep_spec: "penaltyStep acc f = acc + spec_penalty (rf_severity f)"
  by (cases "rf_severity f") (simp_all add: penaltyStep_def spec_penalty_def)

lemma foldl_penaltyStep: "foldl penaltyStep acc fs = acc + sum_list (map (spec_penalty \<circ> rf_severity) fs)"
  by (induction fs arbitrary: acc) (simp_all add: penaltyStep_spec add.assoc)

lemma ratioScore_spec: "ratioScore r = spec_ratio_points (cr_status r)"
  by (cases "cr_status r") (simp_all add: ratioScore_def spec_ratio_points_def)

lemma clamp_spec: "max 0 (min 100 x) = spec_clamp x 0 100"
  by (simp add: spec_clamp_def max_def min_def)

lemma analyse_score:
  "overallScore (analyse b l p) =
     spec_clamp (sum_list (map (spec_ratio_points \<circ> cr_status) (ratios (analyse b l p))) / 6
                 - sum_list (map (spec_penalty \<circ> rf_severity) (riskFlags (analyse b l p)))) 0 100"
proof -
  have m: "map ratioScore rs = map (spec_ratio_points \<circ> cr_status) rs" for rs
    by (simp add: ratioScore_spec)
  show ?thesis
    unfolding analyse_ratios analyse_riskFlags
    by (simp add: analyse_def Let_def foldl_plus_sum_list foldl_penaltyStep m
        length_computeRatios clamp_spec del: map_map)
qed

text \<open>
  C2. Every analysis result has six ratios, and its overall score is
  clamp(mean of the six per-ratio points - sum of the severity penalties of all risk flags, 0, 100),
  with points good = 100, warning = 60, critical = 20 and penalties critical = 15, high = 10,
  medium = 5, low = 2. The score lies in [0, 100], and the category is excellent iff
  score >= 80, good iff 80 > score >= 65, fair iff 65 > score >= 50, poor iff
  50 > score >= 35, and critical iff 35 > score.
\<close>

theorem overallScore_spec:
  assumes "useCreditAnalysis data = Some a"
  shows "length (ratios a) = 6
    \<and> overallScore a =
        spec_clamp (sum_list (map (spec_ratio_points \<circ> cr_status) (ratios a)) / 6
                    - sum_list (map (spec_penalty \<circ> rf_severity) (riskFlags a))) 0 100
    \<and> 0 \<le> overallScore a \<and> overallScore a \<le> 100
    \<and> (scoreCategory a = Excellent \<longleftrightarrow> overallScore a \<ge> 80)
    \<and> (scoreCategory a = CatGood \<longleftrightarrow> 80 > overallScore a \<and> overallScore a \<ge> 65)
    \<and> (scoreCategory a = Fair \<longleftrightarrow> 65 > overallScore a \<and> overallScore a \<ge> 50)
    \<and> (scoreCategory a = Poor \<longleftrightarrow> 50 > overallScore a \<and> overallScore a \<ge> 35)
    \<and> (scoreCategory a = CatCritical \<longleftrightarrow> 35 > overallScore a)"
proof -
  from assms obtain d y l where a: "a = analyse (getBenchmarks (sicCode d)) l (getPreviousYearData d)"
    by (rule useCreditAnalysis_latest)
  have len: "length (ratios a) = 6"
    by (simp add: a analyse_ratios length_computeRatios)
  have score: "overallScore a =
        spec_clamp (sum_list (map (spec_ratio_points \<circ> cr_status) (ratios a)) / 6
                    - sum_list (map (spec_penalty \<circ> rf_severity) (riskFlags a))) 0 100"
    unfolding a by (rule analyse_score)
  have range: "0 \<le> overallScore a \<and> overallScore a \<le> 100"
    unfolding score by (simp add: spec_clamp_def)
  have cat: "scoreCategory a = categorize (overallScore a)"
    unfolding a by (rule analyse_category)
  have cats: "(scoreCategory a = Excellent \<longleftrightarrow> overallScore a \<ge> 80)
    \<and> (scoreCategory a = CatGood \<longleftrightarrow> 80 > overallScore a \<and> overallScore a \<ge> 65)
    \<and> (scoreCategory a = Fair \<longleftrightarrow> 65 > overallScore a \<and> overallScore a \<ge> 50)
    \<and> (scoreCategory a = Poor \<longleftrightarrow> 50 > overallScore a \<and> overallScore a \<ge> 35)
    \<and> (scoreCategory a = CatCritical \<longleftrightarrow> 35 > overallScore a)"
    unfolding cat categorize_def by auto
  from len score range cats show ?thesis by blast
qed

lemma healthy_analysis:
  "useCreditAnalysis (Some (company_of [healthy_year])) =
     Some (analyse default_benchmarks healthy_year None)"
  by (simp add: hook_defs)

lemma healthy_latest: "getLatestYearData (company_of [healthy_year]) = Some (2023, healthy_year)"
  by (simp add: hook_defs healthy_year_def)

lemma healthy_doubles:
  "fmul (3 / 2) (9 / 10) \<le> toDouble 3"
  "toDouble (1 / 6) \<le> fmul 1 1"
  "fmul (2 / 25) (4 / 5) \<le> toDouble (1 / 5)"
  "fmul (1 / 20) 1 \<le> toDouble (1 / 5)"
  "fmul (3 / 20) (9 / 10) \<le> toDouble (1 / 3)"
  "fmul 1 (9 / 10) \<le> toDouble 2"
  "\<not> fmul 1 (3 / 2) < toDouble (1 / 6)"
  by code_simp+

lemma healthy_ratios: "map cr_status (computeRatios default_benchmarks healthy_year) = replicate 6 StatusGood"
  by (simp add: computeRatios_def ratio_defs healthy_year_def default_benchmarks_def
      calculateRatioStatus_def numeral_eq_Suc healthy_doubles)

lemma healthy_flags: "generateRiskFlags default_benchmarks healthy_year None = []"
  by (simp add: flag_defs ratio_defs healthy_year_def default_benchmarks_def healthy_doubles)

theorem overallScore_spec_witness:
  "overallScore (analyse default_benchmarks healthy_year None) = 100
   \<and> scoreCategory (analyse default_benchmarks healthy_year None) = Excellent"
proof -
  let ?a = "analyse default_benchmarks healthy_year None"
  note t = overallScore_spec [OF healthy_analysis]
  have s: "sum_list (map (spec_ratio_points \<circ> cr_status) (ratios ?a)) = 600"
    unfolding analyse_ratios map_map [symmetric] healthy_ratios
    by (simp add: spec_ratio_points_def numeral_eq_Suc)
  have p: "riskFlags ?a = []"
    by (simp add: analyse_riskFlags healthy_flags)
  from t have "overallScore ?a =
      spec_clamp (sum_list (map (spec_ratio_points \<circ> cr_status) (ratios ?a)) / 6
                  - sum_list (map (spec_penalty \<circ> rf_severity) (riskFlags ?a))) 0 100"
    by blast
  then have v: "overallScore ?a = 100"
    by (simp add: s p spec_clamp_def)
  from t have "(scoreCategory ?a = Excellent) = (80 \<le> overallScore ?a)"
    by blast
  with v show ?thesis by simp
qed

section \<open>Ratio values\<close>

lemma truthy_iff: "truthy x \<longleftrightarrow> \<not> absent_or_zero x"
  by (cases x) (simp_all add: truthy_def absent_or_zero_def)

lemma currentRatio_ok:
  "spec_ratio_ok (currentRatio_of l)
     (absent_or_zero (currentAssets l) \<or> absent_or_zero (currentLiabilities l))
     (the (currentAssets l)) (the (currentLiabilities l))"
  by (auto simp: spec_ratio_ok_def currentRatio_of_def truthy_iff absent_or_zero_def)

lemma equity_of_eq:
  "equity_of l = (if absent_or_zero (totalAssets l) \<or> absent_or_zero (totalLiabilities l) then None
                  else Some (the (totalAssets l) - the (totalLiabilities l)))"
  by (simp add: equity_of_def truthy_iff)

lemma debtToEquity_ok:
  "spec_ratio_ok (debtToEquity_of l)
     (absent_or_zero (longTermDebt l) \<or> absent_or_zero (totalAssets l)
      \<or> absent_or_zero (totalLiabilities l) \<or> the (totalAssets l) - the (totalLiabilities l) \<le> 0)
     (the (longTermDebt l)) (the (totalAssets l) - the (totalLiabilities l))"
  by (auto simp: spec_ratio_ok_def debtToEquity_of_def equity_of_eq truthy_def absent_or_zero_def
      split: option.splits)

lemma netMargin_ok:
  "spec_ratio_ok (netMargin_of l)
     (absent_or_zero (revenue l) \<or> absent_or_zero (netIncome l))
     (the (netIncome l)) (the (revenue l))"
  by (auto simp: spec_ratio_ok_def netMargin_of_def truthy_iff absent_or_zero_def)

lemma roa_ok:
  "spec_ratio_ok (roa_of l)
     (absent_or_zero (totalAssets l) \<or> absent_or_zero (netIncome l))
     (the (netIncome l)) (the (totalAssets l))"
  by (auto simp: spec_ratio_ok_def roa_of_def truthy_iff absent_or_zero_def)

lemma roe_ok:
  "spec_ratio_ok (roe_of l)
     (absent_or_zero (totalAssets l) \<or> absent_or_zero (totalLiabilities l)
      \<or> absent_or_zero (netIncome l) \<or> the (totalAssets l) - the (totalLiabilities l) \<le> 0)
     (the (netIncome l)) (the (totalAssets l) - the (totalLiabilities l))"
  by (auto simp: spec_ratio_ok_def roe_of_def equity_of_eq truthy_def absent_or_zero_def
      split: option.splits)

lemma quickRatio_ok:
  "spec_ratio_ok (quickRatio_of l)
     (absent_or_zero (currentAssets l) \<or> absent_or_zero (currentLiabilities l)
      \<or> absent_or_zero (cashAndEquivalents l))
     (the (cashAndEquivalents l) + 0.5 * (the (currentAssets l) - the (cashAndEquivalents l)))
     (the (currentLiabilities l))"
  by (auto simp: spec_ratio_ok_def quickRatio_of_def truthy_iff absent_or_zero_def mult.commute)

text \<open>
  C3, as the code has it. Each of the six ratios of the latest year is null exactly when one
  of its input fields is null or exactly zero or, for debt-to-equity and return on equity,
  when total assets minus total liabilities is not strictly positive. Otherwise its
  denominator is non-zero and its value is the fixed formula, with equity taken as total
  assets minus total liabilities and quick ratio =
  (cash + 0.5 * (current assets - cash)) / current liabilities.
\<close>

theorem ratios_null_or_formula:
  assumes "useCreditAnalysis (Some d) = Some a" and "getLatestYearData d = Some (y, l)"
  shows "length (ratios a) = 6
    \<and> spec_ratio_ok (cr_value (ratios a ! 0))
        (absent_or_zero (currentAssets l) \<or> absent_or_zero (currentLiabilities l))
        (the (currentAssets l)) (the (currentLiabilities l))
    \<and> spec_ratio_ok (cr_value (ratios a ! 1))
        (absent_or_zero (longTermDebt l) \<or> absent_or_zero (totalAssets l)
         \<or> absent_or_zero (totalLiabilities l) \<or> the (totalAssets l) - the (totalLiabilities l) \<le> 0)
        (the (longTermDebt l)) (the (totalAssets l) - the (totalLiabilities l))
    \<and> spec_ratio_ok (cr_value (ratios a ! 2))
        (absent_or_zero (revenue l) \<or> absent_or_zero (netIncome l))
        (the (netIncome l)) (the (revenue l))
    \<and> spec_ratio_ok (cr_value (ratios a ! 3))
        (absent_or_zero (totalAssets l) \<or> absent_or_zero (netIncome l))
        (the (netIncome l)) (the (totalAssets l))
    \<and> spec_ratio_ok (cr_value (ratios a ! 4))
        (absent_or_zero (totalAssets l) \<or> absent_or_zero (totalLiabilities l)
         \<or> absent_or_zero (netIncome l) \<or> the (totalAssets l) - the (totalLiabilities l) \<le> 0)
        (the (netIncome l)) (the (totalAssets l) - the (totalLiabilities l))
    \<and> spec_ratio_ok (cr_value (ratios a ! 5))
        (absent_or_zero (currentAssets l) \<or> absent_or_zero (currentLiabilities l)
         \<or> absent_or_zero (cashAndEquivalents l))
        (the (cashAndEquivalents l) + 0.5 * (the (currentAssets l) - the (cashAndEquivalents l)))
        (the (currentLiabilities l))"
proof -
  note v = hook_ratio_values [OF assms]
  show ?thesis
    unfolding v
    by (intro conjI refl currentRatio_ok debtToEquity_ok netMargin_ok roa_ok roe_ok quickRatio_ok)
qed

theorem ratios_null_or_formula_witness:
  "map cr_value (ratios (analyse default_benchmarks healthy_year None)) =
     [Some 3, Some (1 / 6), Some (1 / 5), Some (1 / 5), Some (1 / 3), Some 2]"
proof -
  let ?a = "analyse default_benchmarks healthy_year None"
  note t = ratios_null_or_formula [OF healthy_analysis healthy_latest]
  have f: "absent_or_zero (Some x) = (x = 0)" for x
    by (simp add: absent_or_zero_def)
  from t have len: "length (ratios ?a) = 6" by blast
  from t have "cr_value (ratios ?a ! 0) = Some 3
     \<and> cr_value (ratios ?a ! 1) = Some (1 / 6)
     \<and> cr_value (ratios ?a ! 2) = Some (1 / 5)
     \<and> cr_value (ratios ?a ! 3) = Some (1 / 5)
     \<and> cr_value (ratios ?a ! 4) = Some (1 / 3)
     \<and> cr_value (ratios ?a ! 5) = Some 2"
    by (simp add: spec_ratio_ok_def healthy_year_def f)
  with len show ?thesis
    by (intro nth_equalityI) (auto simp: less_Suc_eq numeral_eq_Suc)
qed

lemma zero_assets_analysis:
  "useCreditAnalysis (Some (company_of [zero_assets_year])) =
     Some (analyse default_benchmarks zero_assets_year None)"
  by (simp add: hook_defs)

text \<open>
  With currentAssets = 0 and currentLiabilities = 100 no input is null and the denominator
  is not zero, yet the current ratio is null.
\<close>

theorem ratio_null_iff_counterexample:
  "\<not> (cr_value (ratios (the (useCreditAnalysis (Some (company_of [zero_assets_year])))) ! 0) = None
       \<longleftrightarrow> currentAssets zero_assets_year = None \<or> currentLiabilities zero_assets_year = None
            \<or> currentLiabilities zero_assets_year = Some 0)"
  unfolding zero_assets_analysis option.sel analyse_ratios
  by (simp add: computeRatios_def currentRatio_of_def truthy_def zero_assets_year_def)

section \<open>No analysis\<close>

lemma sort_key_Nil_iff: "sort_key k xs = [] \<longleftrightarrow> xs = []"
  using length_sort [of k xs] by (metis length_0_conv)

lemma useCreditAnalysis_None_iff:
  "useCreditAnalysis data = None \<longleftrightarrow> data = None \<or> fiscalYears (the data) = []"
proof (cases data)
  case None
  then show ?thesis by (simp add: useCreditAnalysis_def)
next
  case (Some d)
  have "sortedYears d = [] \<longleftrightarrow> fiscalYears d = []"
    by (simp add: sortedYears_def sort_key_Nil_iff)
  then have "getLatestYearData d = None \<longleftrightarrow> fiscalYears d = []"
    by (cases "sortedYears d") (simp_all add: getLatestYearData_def)
  with Some show ?thesis
    by (auto simp: useCreditAnalysis_def split: option.splits)
qed

text \<open>
  C4, as the code has it. The analyzer returns no analysis exactly when its input is absent
  or has zero fiscal years.
\<close>

theorem no_analysis_iff:
  "useCreditAnalysis data = None \<longleftrightarrow> data = None \<or> fiscalYears (the data) = []"
  by (rule useCreditAnalysis_None_iff)

theorem no_analysis_iff_witness:
  "useCreditAnalysis (Some (company_of [])) = None
   \<and> useCreditAnalysis (Some (company_of [blank_year 2023])) \<noteq> None"
  using no_analysis_iff [of "Some (company_of [])"]
    no_analysis_iff [of "Some (company_of [blank_year 2023])"]
  by (simp add: company_of_def)

lemma blank_analysis:
  "useCreditAnalysis (Some (company_of [blank_year 2023])) =
     Some (analyse default_benchmarks (blank_year 2023) None)"
  by (simp add: hook_defs)

lemma blank_score: "overallScore (analyse b (blank_year y) None) = 55"
proof -
  have "map ratioScore (computeRatios b (blank_year y)) = replicate 6 60"
    by (simp add: computeRatios_def ratio_defs blank_year_def calculateRatioStatus_def
        ratioScore_def numeral_eq_Suc)
  moreover have "foldl penaltyStep 0 (generateRiskFlags b (blank_year y) None) = 5"
    by (simp add: flag_defs ratio_defs blank_year_def penaltyStep_def)
  ultimately show ?thesis
    by (simp add: analyse_def Let_def length_computeRatios) (simp add: numeral_eq_Suc)
qed

text \<open>
  A single fiscal year with every field null still yields an analysis: six warning ratios,
  the incomplete-data flag, score 55, category fair.
\<close>

theorem all_null_latest_counterexample:
  "getLatestYearData (company_of [blank_year 2023]) = Some (2023, blank_year 2023)
   \<and> [revenue (blank_year 2023), netIncome (blank_year 2023), totalAssets (blank_year 2023),
       totalLiabilities (blank_year 2023), stockholdersEquity (blank_year 2023),
       operatingCashFlow (blank_year 2023), ebitda (blank_year 2023), grossProfit (blank_year 2023),
       operatingIncome (blank_year 2023), longTermDebt (blank_year 2023),
       currentAssets (blank_year 2023), currentLiabilities (blank_year 2023),
       cashAndEquivalents (blank_year 2023)]
      = [None, None, None, None, None, None, None, None, None, None, None, None, None]
   \<and> useCreditAnalysis (Some (company_of [blank_year 2023])) \<noteq> None
   \<and> overallScore (the (useCreditAnalysis (Some (company_of [blank_year 2023])))) = 55
   \<and> scoreCategory (the (useCreditAnalysis (Some (company_of [blank_year 2023])))) = Fair"
proof -
  have "getLatestYearData (company_of [blank_year 2023]) = Some (2023, blank_year 2023)"
    by (simp add: hook_defs blank_year_def)
  moreover have "scoreCategory (analyse default_benchmarks (blank_year 2023) None) = Fair"
    by (simp add: analyse_category blank_score categorize_def)
  ultimately show ?thesis
    unfolding blank_analysis option.sel by (simp add: blank_score) (simp add: blank_year_def)
qed

section \<open>Fields the analysis does not distinguish\<close>

lemma insort_key_map_commute:
  assumes "\<And>r. k (g r) = k r"
  shows "insort_key k (g x) (map g xs) = map g (insort_key k x xs)"
  by (induction xs) (simp_all add: assms)

lemma sort_key_map_commute:
  assumes "\<And>r. k (g r) = k r"
  shows "sort_key k (map g xs) = map g (sort_key k xs)"
  by (induction xs) (simp_all add: insort_key_map_commute [of k g, OF assms])

lemma useCreditAnalysis_map_cong:
  assumes yr: "\<And>r. year (g r) = year r"
    and lat: "\<And>b r p. analyse b (g r) p = analyse b r p"
    and prev: "\<And>b l y r. analyse b l (Some (y, g r)) = analyse b l (Some (y, r))"
  shows "useCreditAnalysis (Some (d\<lparr>fiscalYears := map g (fiscalYears d)\<rparr>)) = useCreditAnalysis (Some d)"
proof -
  have s: "sortedYears (d\<lparr>fiscalYears := map g (fiscalYears d)\<rparr>) = map g (sortedYears d)"
    by (simp add: sortedYears_def sort_key_map_commute yr)
  show ?thesis
    by (auto simp: useCreditAnalysis_def getLatestYearData_def getPreviousYearData_def s yr lat prev
        split: list.splits)
qed

lemma truthy_absent_if_zero: "truthy x \<longleftrightarrow> absent_if_zero x \<noteq> None"
  by (cases x) (simp_all add: truthy_def absent_if_zero_def)

lemma absent_if_zero_eqD:
  assumes "absent_if_zero x' = absent_if_zero x"
  shows "x' = x \<or> (\<not> truthy x' \<and> \<not> truthy x)"
  using assms by (cases x'; cases x) (auto simp: absent_if_zero_def truthy_def split: if_splits)

lemma equity_of_cong:
  assumes "absent_if_zero (totalAssets l') = absent_if_zero (totalAssets l)"
    and "absent_if_zero (totalLiabilities l') = absent_if_zero (totalLiabilities l)"
  shows "equity_of l' = equity_of l"
  using absent_if_zero_eqD [OF assms(1)] absent_if_zero_eqD [OF assms(2)]
  by (auto simp: equity_of_def)

lemma currentRatio_of_cong:
  assumes "absent_if_zero (currentAssets l') = absent_if_zero (currentAssets l)"
    and "absent_if_zero (currentLiabilities l') = absent_if_zero (currentLiabilities l)"
  shows "currentRatio_of l' = currentRatio_of l"
  using absent_if_zero_eqD [OF assms(1)] absent_if_zero_eqD [OF assms(2)]
  by (auto simp: currentRatio_of_def)

lemma debtToEquity_of_cong:
  assumes "absent_if_zero (longTermDebt l') = absent_if_zero (longTermDebt l)"
    and "equity_of l' = equity_of l"
  shows "debtToEquity_of l' = debtToEquity_of l"
  using absent_if_zero_eqD [OF assms(1)] assms(2)
  by (auto simp: debtToEquity_of_def)

lemma netMargin_of_cong:
  assumes "absent_if_zero (revenue l') = absent_if_zero (revenue l)"
    and "absent_if_zero (netIncome l') = absent_if_zero (netIncome l)"
  shows "netMargin_of l' = netMargin_of l"
  using absent_if_zero_eqD [OF assms(1)] absent_if_zero_eqD [OF assms(2)]
  by (auto simp: netMargin_of_def)

lemma roa_of_cong:
  assumes "absent_if_zero (totalAssets l') = absent_if_zero (totalAssets l)"
    and "absent_if_zero (netIncome l') = absent_if_zero (netIncome l)"
  shows "roa_of l' = roa_of l"
  using absent_if_zero_eqD [OF assms(1)] absent_if_zero_eqD [OF assms(2)]
  by (auto simp: roa_of_def)

lemma roe_of_cong:
  assumes "absent_if_zero (netIncome l') = absent_if_zero (netIncome l)"
    and "equity_of l' = equity_of l"
  shows "roe_of l' = roe_of l"
  using absent_if_zero_eqD [OF assms(1)] assms(2)
  by (auto simp: roe_of_def)

lemma quickRatio_of_cong:
  assumes "absent_if_zero (currentAssets l') = absent_if_zero (currentAssets l)"
    and "absent_if_zero (currentLiabilities l') = absent_if_zero (currentLiabilities l)"
    and "absent_if_zero (cashAndEquivalents l') = absent_if_zero (cashAndEquivalents l)"
  shows "quickRatio_of l' = quickRatio_of l"
  using absent_if_zero_eqD [OF assms(1)] absent_if_zero_eqD [OF assms(2)] absent_if_zero_eqD [OF assms(3)]
  by (auto simp: quickRatio_of_def)

lemma revenueFlags_cong:
  assumes "absent_if_zero (revenue l') = absent_if_zero (revenue l)"
    and "absent_if_zero (revenue r') = absent_if_zero (revenue r)"
  shows "revenueFlags l' (Some (y', r')) = revenueFlags l (Some (y, r))"
  using absent_if_zero_eqD [OF assms(1)] absent_if_zero_eqD [OF assms(2)]
  by (auto simp: revenueFlags_def)

lemma revenueFlags_latest_cong:
  assumes "absent_if_zero (revenue l') = absent_if_zero (revenue l)"
  shows "revenueFlags l' p = revenueFlags l p"
proof (cases p)
  case None
  then show ?thesis by (simp add: revenueFlags_def)
next
  case (Some q)
  then show ?thesis
    using revenueFlags_cong [OF assms refl, of "fst q" "snd q" "fst q"] by simp
qed

lemma cashFlags_cong:
  assumes "absent_if_zero (cashAndEquivalents l') = absent_if_zero (cashAndEquivalents l)"
    and "absent_if_zero (totalAssets l') = absent_if_zero (totalAssets l)"
  shows "cashFlags l' = cashFlags l"
  using absent_if_zero_eqD [OF assms(1)] absent_if_zero_eqD [OF assms(2)]
  by (auto simp: cashFlags_def)

lemma dataQualityFlags_cong:
  assumes "absent_if_zero (revenue l') = absent_if_zero (revenue l)"
    and "absent_if_zero (totalAssets l') = absent_if_zero (totalAssets l)"
    and "absent_if_zero (totalLiabilities l') = absent_if_zero (totalLiabilities l)"
  shows "dataQualityFlags l' = dataQualityFlags l"
  using assms by (simp add: dataQualityFlags_def truthy_absent_if_zero)

lemma analyse_cong:
  assumes rev: "absent_if_zero (revenue l') = absent_if_zero (revenue l)"
    and ni: "absent_if_zero (netIncome l') = absent_if_zero (netIncome l)"
    and ta: "absent_if_zero (totalAssets l') = absent_if_zero (totalAssets l)"
    and tl: "absent_if_zero (totalLiabilities l') = absent_if_zero (totalLiabilities l)"
    and ca: "absent_if_zero (currentAssets l') = absent_if_zero (currentAssets l)"
    and cl: "absent_if_zero (currentLiabilities l') = absent_if_zero (currentLiabilities l)"
    and ltd: "absent_if_zero (longTermDebt l') = absent_if_zero (longTermDebt l)"
    and cash: "absent_if_zero (cashAndEquivalents l') = absent_if_zero (cashAndEquivalents l)"
    and prev: "revenueFlags l' p' = revenueFlags l p"
  shows "analyse b l' p' = analyse b l p"
proof -
  note eq = equity_of_cong [OF ta tl]
  note r = currentRatio_of_cong [OF ca cl] debtToEquity_of_cong [OF ltd eq]
    netMargin_of_cong [OF rev ni] roa_of_cong [OF ta ni] roe_of_cong [OF ni eq]
    quickRatio_of_cong [OF ca cl cash]
  have rs: "computeRatios b l' = computeRatios b l"
    by (simp add: computeRatios_def r)
  have fl: "generateRiskFlags b l' p' = generateRiskFlags b l p"
    by (simp add: generateRiskFlags_def liquidityFlags_def leverageFlags_def
        profitabilityFlags_def r prev cashFlags_cong [OF cash ta]
        dataQualityFlags_cong [OF rev ta tl])
  have pc: "computePeerComparisons b l' = computePeerComparisons b l"
    by (simp add: computePeerComparisons_def r)
  show ?thesis
    by (simp add: analyse_def rs fl pc)
qed

section \<open>The equity denominator\<close>

text \<open>
  C7, as the code has it. The analysis does not depend on the stockholders' equity field:
  rewriting that field in every year leaves the result unchanged, and a non-null
  debt-to-equity value is long-term debt divided by total assets minus total liabilities.
\<close>

theorem equity_is_assets_minus_liabilities:
  assumes "useCreditAnalysis (Some d) = Some a" and "getLatestYearData d = Some (y, l)"
  shows "useCreditAnalysis (Some (d\<lparr>fiscalYears := map (\<lambda>r. r\<lparr>stockholdersEquity := s r\<rparr>) (fiscalYears d)\<rparr>)) = Some a
    \<and> (cr_value (ratios a ! 1) = None
        \<or> cr_value (ratios a ! 1)
            = Some (the (longTermDebt l) / (the (totalAssets l) - the (totalLiabilities l))))"
proof -
  have "useCreditAnalysis (Some (d\<lparr>fiscalYears := map (\<lambda>r. r\<lparr>stockholdersEquity := s r\<rparr>) (fiscalYears d)\<rparr>))
      = useCreditAnalysis (Some d)"
  proof (rule useCreditAnalysis_map_cong)
    show "year (r\<lparr>stockholdersEquity := s r\<rparr>) = year r" for r
      by simp
    show "analyse b (r\<lparr>stockholdersEquity := s r\<rparr>) p = analyse b r p" for b r p
      by (rule analyse_cong) (simp_all, rule revenueFlags_latest_cong, simp)
    show "analyse b l (Some (y, r\<lparr>stockholdersEquity := s r\<rparr>)) = analyse b l (Some (y, r))" for b l y r
      by (rule analyse_cong) (simp_all, rule revenueFlags_cong, simp_all)
  qed
  moreover have "cr_value (ratios a ! 1) = debtToEquity_of l"
    by (rule hook_ratio_values [OF assms])
  moreover have "debtToEquity_of l = None
      \<or> debtToEquity_of l = Some (the (longTermDebt l) / (the (totalAssets l) - the (totalLiabilities l)))"
    using debtToEquity_ok [of l] unfolding spec_ratio_ok_def by blast
  ultimately show ?thesis
    using assms(1) by simp
qed

lemma reported_equity_analysis:
  "useCreditAnalysis (Some (company_of [reported_equity_year])) =
     Some (analyse default_benchmarks reported_equity_year None)"
  by (simp add: hook_defs)

lemma reported_equity_latest:
  "getLatestYearData (company_of [reported_equity_year]) = Some (2023, reported_equity_year)"
  by (simp add: hook_defs reported_equity_year_def)

theorem equity_is_assets_minus_liabilities_witness:
  "useCreditAnalysis (Some (company_of [reported_equity_year\<lparr>stockholdersEquity := None\<rparr>]))
     = Some (analyse default_benchmarks reported_equity_year None)
   \<and> cr_value (ratios (analyse default_benchmarks reported_equity_year None) ! 1) = Some (1 / 5)"
proof -
  have m: "(company_of [reported_equity_year])\<lparr>fiscalYears :=
        map (\<lambda>r. r\<lparr>stockholdersEquity := None\<rparr>) (fiscalYears (company_of [reported_equity_year]))\<rparr>
      = company_of [reported_equity_year\<lparr>stockholdersEquity := None\<rparr>]"
    by (simp add: company_of_def)
  note t = equity_is_assets_minus_liabilities
    [OF reported_equity_analysis reported_equity_latest, of "\<lambda>r. None", unfolded m]
  have v: "cr_value (ratios (analyse default_benchmarks reported_equity_year None) ! 1) = Some (1 / 5)"
    by (simp add: analyse_ratios computeRatios_def ratio_defs reported_equity_year_def)
  from t v show ?thesis
    by blast
qed

text \<open>
  With stockholders' equity reported as 200, total assets 1000, total liabilities 500 and
  long-term debt 100, the debt-to-equity value is not 100 / 200.
\<close>

theorem equity_denominator_counterexample:
  "stockholdersEquity reported_equity_year = Some 200
   \<and> longTermDebt reported_equity_year = Some 100
   \<and> cr_value (ratios (the (useCreditAnalysis (Some (company_of [reported_equity_year])))) ! 1)
       \<noteq> Some (100 / 200)"
proof -
  have h: "useCreditAnalysis (Some (company_of [reported_equity_year])) =
     Some (analyse default_benchmarks reported_equity_year None)"
    by (simp add: hook_defs)
  show ?thesis
    unfolding h option.sel analyse_ratios
    by (simp add: computeRatios_def ratio_defs reported_equity_year_def)
qed

section \<open>The liquidity flag\<close>

lemma filter_liquidityFlags:
  "filter (\<lambda>f. rf_id f = ''low-current-ratio'') (liquidityFlags l) = liquidityFlags l"
  by (simp add: liquidityFlags_def split: option.splits)

lemma filter_low_current_ratio:
  "filter (\<lambda>f. rf_id f = ''low-current-ratio'') (generateRiskFlags b l p) = liquidityFlags l"
proof -
  have "filter (\<lambda>f. rf_id f = ''low-current-ratio'') (leverageFlags b l) = []"
    by (simp add: leverageFlags_def split: option.splits)
  moreover have "filter (\<lambda>f. rf_id f = ''low-current-ratio'') (profitabilityFlags b l) = []"
    by (simp add: profitabilityFlags_def split: option.splits)
  moreover have "filter (\<lambda>f. rf_id f = ''low-current-ratio'') (revenueFlags l p) = []"
    by (simp add: revenueFlags_def Let_def split: option.splits)
  moreover have "filter (\<lambda>f. rf_id f = ''low-current-ratio'') (cashFlags l) = []"
    by (simp add: cashFlags_def Let_def)
  moreover have "filter (\<lambda>f. rf_id f = ''low-current-ratio'') (dataQualityFlags l) = []"
    by (simp add: dataQualityFlags_def)
  ultimately show ?thesis
    by (simp add: generateRiskFlags_def filter_liquidityFlags)
qed

text \<open>
  C8. When the current ratio is a number v, the risk flag with identifier low-current-ratio
  is raised exactly when v < 1, once, with severity critical when v < 0.5 and high otherwise.
  In the scenario currentAssets = 50, currentLiabilities = 100 the ratio is exactly 0.5 and
  the flag is raised with severity high.
\<close>

theorem liquidity_flag_rule:
  assumes "useCreditAnalysis data = Some a" and "cr_value (ratios a ! 0) = Some v"
  shows "map rf_severity (filter (\<lambda>f. rf_id f = ''low-current-ratio'') (riskFlags a))
         = (if v < 1 then [if v < 1 / 2 then SevCritical else SevHigh] else [])"
proof -
  from assms(1) obtain d y l where d: "data = Some d" and l: "getLatestYearData d = Some (y, l)"
    and a: "a = analyse (getBenchmarks (sicCode d)) l (getPreviousYearData d)"
    by (rule useCreditAnalysis_latest)
  have "cr_value (ratios a ! 0) = currentRatio_of l"
    using assms(1) l unfolding d by (rule hook_ratio_values)
  with assms(2) have v: "currentRatio_of l = Some v" by simp
  have "filter (\<lambda>f. rf_id f = ''low-current-ratio'') (riskFlags a) = liquidityFlags l"
    by (simp add: a analyse_riskFlags filter_low_current_ratio)
  then show ?thesis
    by (simp add: liquidityFlags_def v)
qed

lemma half_ratio_analysis:
  "useCreditAnalysis (Some (company_of [half_ratio_year])) =
     Some (analyse default_benchmarks half_ratio_year None)"
  by (simp add: hook_defs)

lemma half_ratio_value:
  "cr_value (ratios (analyse default_benchmarks half_ratio_year None) ! 0) = Some (50 / 100)"
  by (simp add: analyse_ratios computeRatios_def currentRatio_of_def truthy_def half_ratio_year_def)

theorem liquidity_flag_rule_witness:
  "map rf_severity (filter (\<lambda>f. rf_id f = ''low-current-ratio'')
      (riskFlags (analyse default_benchmarks half_ratio_year None))) = [SevHigh]"
  using liquidity_flag_rule [OF half_ratio_analysis half_ratio_value] by simp

section \<open>Reported zeros\<close>

lemma absent_if_zero_idem: "absent_if_zero (absent_if_zero x) = absent_if_zero x"
  by (simp add: absent_if_zero_def)

lemma analyse_nullifyZeros: "analyse b (nullifyZeros r) p = analyse b r p"
  by (rule analyse_cong)
    (simp_all add: nullifyZeros_def absent_if_zero_idem,
     rule revenueFlags_latest_cong, simp add: absent_if_zero_idem)

lemma analyse_previous_nullifyZeros:
  "analyse b l (Some (y, nullifyZeros r)) = analyse b l (Some (y, r))"
  by (rule analyse_cong)
    (simp_all, rule revenueFlags_cong, simp_all add: nullifyZeros_def absent_if_zero_idem)

lemma hook_nullifyZeros:
  "useCreditAnalysis (Some (d\<lparr>fiscalYears := map (\<lambda>r. if P r then nullifyZeros r else r) (fiscalYears d)\<rparr>))
   = useCreditAnalysis (Some d)"
proof (rule useCreditAnalysis_map_cong)
  show "year (if P r then nullifyZeros r else r) = year r" for r
    by (simp add: nullifyZeros_def)
  show "analyse b (if P r then nullifyZeros r else r) p = analyse b r p" for b r p
    by (simp add: analyse_nullifyZeros)
  show "analyse b l (Some (y, if P r then nullifyZeros r else r)) = analyse b l (Some (y, r))"
    for b l y r
    by (simp add: analyse_previous_nullifyZeros)
qed

lemma filter_incomplete_data:
  "filter (\<lambda>f. rf_id f = ''incomplete-data'') (generateRiskFlags b l p) = dataQualityFlags l"
proof -
  have "filter (\<lambda>f. rf_id f = ''incomplete-data'') (liquidityFlags l) = []"
    by (simp add: liquidityFlags_def split: option.splits)
  moreover have "filter (\<lambda>f. rf_id f = ''incomplete-data'') (leverageFlags b l) = []"
    by (simp add: leverageFlags_def split: option.splits)
  moreover have "filter (\<lambda>f. rf_id f = ''incomplete-data'') (profitabilityFlags b l) = []"
    by (simp add: profitabilityFlags_def split: option.splits)
  moreover have "filter (\<lambda>f. rf_id f = ''incomplete-data'') (revenueFlags l p) = []"
    by (simp add: revenueFlags_def Let_def split: option.splits)
  moreover have "filter (\<lambda>f. rf_id f = ''incomplete-data'') (cashFlags l) = []"
    by (simp add: cashFlags_def Let_def)
  moreover have "filter (\<lambda>f. rf_id f = ''incomplete-data'') (dataQualityFlags l) = dataQualityFlags l"
    by (simp add: dataQualityFlags_def)
  ultimately show ?thesis
    by (simp add: generateRiskFlags_def)
qed

text \<open>
  C10. A reported zero in the latest year is treated as an absent value: replacing zeros by
  null in any selection of the years leaves the analysis unchanged; every ratio whose formula
  uses a field that is zero is null; and the incomplete-data flag is raised, once and with
  severity medium, whenever revenue, total assets or total liabilities is zero.
\<close>

theorem zero_treated_as_absent:
  assumes "useCreditAnalysis (Some d) = Some a" and "getLatestYearData d = Some (y, l)"
  shows "useCreditAnalysis
           (Some (d\<lparr>fiscalYears := map (\<lambda>r. if P r then nullifyZeros r else r) (fiscalYears d)\<rparr>))
         = Some a
    \<and> (currentAssets l = Some 0 \<or> currentLiabilities l = Some 0
        \<longrightarrow> cr_value (ratios a ! 0) = None \<and> cr_value (ratios a ! 5) = None)
    \<and> (longTermDebt l = Some 0 \<longrightarrow> cr_value (ratios a ! 1) = None)
    \<and> (totalAssets l = Some 0
        \<longrightarrow> cr_value (ratios a ! 1) = None \<and> cr_value (ratios a ! 3) = None
            \<and> cr_value (ratios a ! 4) = None)
    \<and> (totalLiabilities l = Some 0
        \<longrightarrow> cr_value (ratios a ! 1) = None \<and> cr_value (ratios a ! 4) = None)
    \<and> (revenue l = Some 0 \<longrightarrow> cr_value (ratios a ! 2) = None)
    \<and> (netIncome l = Some 0
        \<longrightarrow> cr_value (ratios a ! 2) = None \<and> cr_value (ratios a ! 3) = None
            \<and> cr_value (ratios a ! 4) = None)
    \<and> (cashAndEquivalents l = Some 0 \<longrightarrow> cr_value (ratios a ! 5) = None)
    \<and> (revenue l = Some 0 \<or> totalAssets l = Some 0 \<or> totalLiabilities l = Some 0
        \<longrightarrow> map rf_severity (filter (\<lambda>f. rf_id f = ''incomplete-data'') (riskFlags a))
            = [SevMedium])"
proof -
  note v = hook_ratio_values [OF assms]
  have a: "a = analyse (getBenchmarks (sicCode d)) l (getPreviousYearData d)"
    using assms by (rule useCreditAnalysis_Some)
  have inv: "useCreditAnalysis
           (Some (d\<lparr>fiscalYears := map (\<lambda>r. if P r then nullifyZeros r else r) (fiscalYears d)\<rparr>))
         = Some a"
    using assms(1) by (simp add: hook_nullifyZeros)
  have c0: "currentAssets l = Some 0 \<or> currentLiabilities l = Some 0
        \<longrightarrow> cr_value (ratios a ! 0) = None \<and> cr_value (ratios a ! 5) = None"
    unfolding v by (auto simp: currentRatio_of_def quickRatio_of_def truthy_def)
  have c1: "longTermDebt l = Some 0 \<longrightarrow> cr_value (ratios a ! 1) = None"
    unfolding v by (auto simp: debtToEquity_of_def truthy_def)
  have c2: "totalAssets l = Some 0
        \<longrightarrow> cr_value (ratios a ! 1) = None \<and> cr_value (ratios a ! 3) = None
            \<and> cr_value (ratios a ! 4) = None"
    unfolding v by (auto simp: debtToEquity_of_def roa_of_def roe_of_def equity_of_def truthy_def)
  have c3: "totalLiabilities l = Some 0
        \<longrightarrow> cr_value (ratios a ! 1) = None \<and> cr_value (ratios a ! 4) = None"
    unfolding v by (auto simp: debtToEquity_of_def roe_of_def equity_of_def truthy_def)
  have c4: "revenue l = Some 0 \<longrightarrow> cr_value (ratios a ! 2) = None"
    unfolding v by (auto simp: netMargin_of_def truthy_def)
  have c5: "netIncome l = Some 0
        \<longrightarrow> cr_value (ratios a ! 2) = None \<and> cr_value (ratios a ! 3) = None
            \<and> cr_value (ratios a ! 4) = None"
    unfolding v by (auto simp: netMargin_of_def roa_of_def roe_of_def truthy_def)
  have c6: "cashAndEquivalents l = Some 0 \<longrightarrow> cr_value (ratios a ! 5) = None"
    unfolding v by (auto simp: quickRatio_of_def truthy_def)
  have c7: "revenue l = Some 0 \<or> totalAssets l = Some 0 \<or> totalLiabilities l = Some 0
        \<longrightarrow> map rf_severity (filter (\<lambda>f. rf_id f = ''incomplete-data'') (riskFlags a))
            = [SevMedium]"
    by (auto simp: a analyse_riskFlags filter_incomplete_data dataQualityFlags_def truthy_def)
  from inv c0 c1 c2 c3 c4 c5 c6 c7 show ?thesis
    by (intro conjI)
qed

lemma zero_analysis:
  "useCreditAnalysis (Some (company_of [zero_year])) =
     Some (analyse default_benchmarks zero_year None)"
  by (simp add: hook_defs)

lemma zero_latest: "getLatestYearData (company_of [zero_year]) = Some (2023, zero_year)"
  by (simp add: hook_defs zero_year_def)

theorem zero_treated_as_absent_witness:
  "useCreditAnalysis (Some (company_of [blank_year 2023]))
     = Some (analyse default_benchmarks zero_year None)
   \<and> map (\<lambda>i. cr_value (ratios (analyse default_benchmarks zero_year None) ! i)) [0, 1, 2, 3, 4, 5]
     = [None, None, None, None, None, None]
   \<and> map rf_severity (filter (\<lambda>f. rf_id f = ''incomplete-data'')
        (riskFlags (analyse default_benchmarks zero_year None))) = [SevMedium]"
proof -
  have m: "(company_of [zero_year])\<lparr>fiscalYears :=
        map (\<lambda>r. if True then nullifyZeros r else r) (fiscalYears (company_of [zero_year]))\<rparr>
      = company_of [blank_year 2023]"
    by (simp add: company_of_def nullifyZeros_def zero_year_def blank_year_def absent_if_zero_def)
  note t = zero_treated_as_absent [OF zero_analysis zero_latest, of "\<lambda>r. True", unfolded m]
  have z: "revenue zero_year = Some 0" "netIncome zero_year = Some 0" "totalAssets zero_year = Some 0"
    "totalLiabilities zero_year = Some 0" "longTermDebt zero_year = Some 0"
    "currentAssets zero_year = Some 0" "currentLiabilities zero_year = Some 0"
    "cashAndEquivalents zero_year = Some 0"
    by (simp_all add: zero_year_def)
  from t show ?thesis
    by (simp add: z)
qed

section \<open>The year table of the normalizer\<close>

lemma update_fresh: "k \<notin> fst ` set al \<Longrightarrow> AList.update k v al = al @ [(k, v)]"
  by (induction al) auto

lemma initYears_append:
  "\<forall>k \<in> fst ` set yd. k < y \<Longrightarrow> initYears y e yd = yd @ map (\<lambda>k. (k, newDraft k)) [y..e]"
proof (induction y e yd rule: initYears.induct)
  case (1 yr e yd)
  show ?case
  proof (cases "yr \<le> e")
    case True
    have fresh: "yr \<notin> fst ` set yd"
      using "1.prems" by auto
    have upd: "AList.update yr (newDraft yr) yd = yd @ [(yr, newDraft yr)]"
      by (rule update_fresh [OF fresh])
    have "\<forall>k \<in> fst ` set (AList.update yr (newDraft yr) yd). k < yr + 1"
      using "1.prems" by (auto simp: upd)
    with True have "initYears (yr + 1) e (AList.update yr (newDraft yr) yd)
        = AList.update yr (newDraft yr) yd @ map (\<lambda>k. (k, newDraft k)) [yr + 1..e]"
      by (rule "1.IH")
    with True show ?thesis
      by (subst initYears.simps) (simp add: upd upto_rec1 [of yr e])
  next
    case False
    then show ?thesis
      by (subst initYears.simps) simp
  qed
qed

lemma initYears_eq: "initYears s e [] = map (\<lambda>k. (k, newDraft k)) [s..e]"
  using initYears_append [of "[]" s e] by simp

lemma initYears_keys: "map fst (initYears s e []) = [s..e]"
  by (simp add: initYears_eq comp_def)

lemma initYears_keyed: "keyed (initYears s e [])"
  by (auto simp: initYears_eq keyed_def newDraft_def)

lemma initYears_lookup: "map_of (initYears s e []) y = (if y \<in> set [s..e] then Some (newDraft y) else None)"
  by (simp add: initYears_eq map_of_map_restrict restrict_map_def)

lemma d_year_set_field: "d_year (set_field nm v d) = d_year d"
  by (cases nm) simp_all

lemma set_update_subset: "set (AList.update k v al) \<subseteq> insert (k, v) (set al)"
  by (induction al) auto

lemma applyValue_keys:
  assumes "map fst yd = [s..e]"
  shows "map fst (applyValue nm s e yd v) = [s..e]"
proof (cases "eligible s e v")
  case True
  then have "ob_fy v \<in> set (map fst yd)"
    by (simp add: assms eligible_def)
  then show ?thesis
    by (simp add: applyValue_def Let_def update_keys assms)
next
  case False
  then show ?thesis by (simp add: applyValue_def assms)
qed

lemma applyValue_keyed:
  assumes "map fst yd = [s..e]" and "keyed yd"
  shows "keyed (applyValue nm s e yd v)"
proof (cases "eligible s e v")
  case True
  then have "ob_fy v \<in> fst ` set yd"
    using assms(1) by (metis eligible_def atLeastAtMost_iff list.set_map set_upto)
  then obtain p where p: "map_of yd (ob_fy v) = Some p"
    by (metis domD dom_map_of_conv_image_fst)
  then have "(ob_fy v, p) \<in> set yd" by (rule map_of_SomeD)
  with assms(2) have y: "d_year p = Some (ob_fy v)"
    by (auto simp: keyed_def)
  have "keyed (AList.update (ob_fy v) (set_field nm (ob_val v) p) yd)"
    unfolding keyed_def
  proof (intro ballI)
    fix x assume "x \<in> set (AList.update (ob_fy v) (set_field nm (ob_val v) p) yd)"
    then have "x = (ob_fy v, set_field nm (ob_val v) p) \<or> x \<in> set yd"
      using set_update_subset by fastforce
    then show "case x of (k, q) \<Rightarrow> d_year q = Some k"
      using assms(2) y by (auto simp: keyed_def d_year_set_field)
  qed
  with assms(2) show ?thesis
    by (simp add: applyValue_def Let_def p True)
next
  case False
  then show ?thesis by (simp add: applyValue_def assms)
qed

lemma foldl_applyValue_ok:
  assumes "map fst yd = [s..e]" and "keyed yd"
  shows "map fst (foldl (applyValue nm s e) yd vs) = [s..e] \<and> keyed (foldl (applyValue nm s e) yd vs)"
  using assms
  by (induction vs arbitrary: yd) (simp_all add: applyValue_keys applyValue_keyed)

lemma processConcept_ok:
  assumes "map fst (snd st) = [s..e]" and "keyed (snd st)"
  shows "map fst (snd (processConcept s e st entry)) = [s..e] \<and> keyed (snd (processConcept s e st entry))"
  using assms foldl_applyValue_ok [OF assms]
  by (simp add: processConcept_def Let_def split: option.splits)

lemma foldl_processConcept_ok:
  assumes "map fst (snd st) = [s..e]" and "keyed (snd st)"
  shows "map fst (snd (foldl (processConcept s e) st es)) = [s..e]
         \<and> keyed (snd (foldl (processConcept s e) st es))"
  using assms
  by (induction es arbitrary: st) (simp_all add: processConcept_ok)

lemma draftYear_keyed: "keyed yd \<Longrightarrow> map draftYear (map snd yd) = map fst yd"
  by (auto simp: keyed_def draftYear_def)

lemma fiscalYears_normalize:
  "fiscalYears (normalizeFinancials facts tkr sic s e) =
     map (finalizeYear \<circ> snd)
       (snd (foldl (processConcept s e) (Map.empty, initYears s e []) (usGaapEntries facts)))"
proof -
  let ?yd = "snd (foldl (processConcept s e) (Map.empty, initYears s e []) (usGaapEntries facts))"
  have ok: "map fst ?yd = [s..e] \<and> keyed ?yd"
    by (rule foldl_processConcept_ok) (simp_all add: initYears_keys initYears_keyed)
  then have "sorted (map draftYear (map snd ?yd))"
    by (simp add: draftYear_keyed del: map_map)
  then have "sort_key draftYear (map snd ?yd) = map snd ?yd"
    by (rule sort_key_id_if_sorted)
  then show ?thesis
    by (simp add: normalizeFinancials_def Let_def)
qed

lemma years_normalize: "map year (fiscalYears (normalizeFinancials facts tkr sic s e)) = [s..e]"
proof -
  let ?yd = "snd (foldl (processConcept s e) (Map.empty, initYears s e []) (usGaapEntries facts))"
  have ok: "map fst ?yd = [s..e] \<and> keyed ?yd"
    by (rule foldl_processConcept_ok) (simp_all add: initYears_keys initYears_keyed)
  have "map year (map (finalizeYear \<circ> snd) ?yd) = map draftYear (map snd ?yd)"
    by (simp add: finalizeYear_def)
  also have "\<dots> = [s..e]"
    using ok by (simp add: draftYear_keyed del: map_map)
  finally show ?thesis
    by (simp only: fiscalYears_normalize)
qed

lemma applyValue_other:
  "\<not> (eligible s e v \<and> ob_fy v = y) \<Longrightarrow> map_of (applyValue nm s e yd v) y = map_of yd y"
  by (auto simp: applyValue_def Let_def update_conv)

lemma foldl_applyValue_other:
  "\<not> list_ex (\<lambda>v. eligible s e v \<and> ob_fy v = y) vs
   \<Longrightarrow> map_of (foldl (applyValue nm s e) yd vs) y = map_of yd y"
  by (induction vs arbitrary: yd) (simp_all add: applyValue_other)

lemma processConcept_other:
  assumes "\<not> (METRIC_MAPPING (fst entry) \<noteq> None
              \<and> list_ex (\<lambda>v. eligible s e v \<and> ob_fy v = y) (usdValues (snd entry)))"
  shows "map_of (snd (processConcept s e st entry)) y = map_of (snd st) y"
  using assms
  by (auto simp: processConcept_def Let_def foldl_applyValue_other split: option.splits)

lemma foldl_processConcept_other:
  assumes "\<not> list_ex (\<lambda>entry. METRIC_MAPPING (fst entry) \<noteq> None
              \<and> list_ex (\<lambda>v. eligible s e v \<and> ob_fy v = y) (usdValues (snd entry))) es"
  shows "map_of (snd (foldl (processConcept s e) st es)) y = map_of (snd st) y"
  using assms
proof (induction es arbitrary: st)
  case Nil
  then show ?case by simp
next
  case (Cons x es)
  then show ?case
    using processConcept_other [of x s e y st] by simp
qed

lemma finalizeYear_newDraft: "finalizeYear (newDraft y) = blank_year y"
  by (simp add: finalizeYear_def newDraft_def blank_year_def draftYear_def)

lemma blank_when_no_data:
  assumes "r \<in> set (fiscalYears (normalizeFinancials facts tkr sic s e))"
    and "\<not> yearHasData facts s e (year r)"
  shows "r = blank_year (year r)"
proof -
  let ?yd = "snd (foldl (processConcept s e) (Map.empty, initYears s e []) (usGaapEntries facts))"
  have ok: "map fst ?yd = [s..e] \<and> keyed ?yd"
    by (rule foldl_processConcept_ok) (simp_all add: initYears_keys initYears_keyed)
  from assms(1) obtain k p where kp: "(k, p) \<in> set ?yd" and r: "r = finalizeYear p"
    by (auto simp: fiscalYears_normalize)
  from ok kp have dy: "d_year p = Some k"
    by (auto simp: keyed_def)
  then have yr: "year r = k"
    by (simp add: r finalizeYear_def draftYear_def)
  from ok have "distinct (map fst ?yd)" by simp
  with kp have look: "map_of ?yd k = Some p" by simp
  from kp ok have "k \<in> set [s..e]"
    by (metis image_eqI fst_conv list.set_map)
  moreover have "map_of ?yd k = map_of (initYears s e []) k"
    using assms(2) foldl_processConcept_other [of s e k "usGaapEntries facts" "(Map.empty, initYears s e [])"]
    by (simp add: yearHasData_def yr)
  ultimately have "p = newDraft k"
    using look by (simp add: initYears_lookup)
  then have "r = blank_year k"
    by (simp add: r finalizeYear_newDraft)
  then show ?thesis
    by (simp add: blank_year_def)
qed

text \<open>
  C1. For every raw fact set and every range with start <= end, the years of the fiscalYears
  sequence of the Normalizer's output are start, start + 1, ..., end: exactly
  end - start + 1 entries, strictly ascending, without gaps or duplicates. A year for which
  no recognised concept has an annual observation in range still has its record, with every
  field null.
\<close>

theorem fiscalYears_dense:
  assumes "s \<le> e"
  shows "map year (fiscalYears (normalizeFinancials facts tkr sic s e)) = [s..e]
    \<and> int (length (fiscalYears (normalizeFinancials facts tkr sic s e))) = e - s + 1
    \<and> sorted_wrt (<) (map year (fiscalYears (normalizeFinancials facts tkr sic s e)))
    \<and> distinct (map year (fiscalYears (normalizeFinancials facts tkr sic s e)))
    \<and> (\<forall>r \<in> set (fiscalYears (normalizeFinancials facts tkr sic s e)).
          \<not> yearHasData facts s e (year r) \<longrightarrow> r = blank_year (year r))"
proof -
  let ?fys = "fiscalYears (normalizeFinancials facts tkr sic s e)"
  have y: "map year ?fys = [s..e]"
    by (rule years_normalize)
  have "length ?fys = length (map year ?fys)" by simp
  also have "\<dots> = nat (e - s + 1)"
    unfolding y by simp
  finally have len: "int (length ?fys) = e - s + 1"
    using assms by simp
  have "sorted_wrt (<) (map year ?fys)" and "distinct (map year ?fys)"
    unfolding y by simp_all
  with y len blank_when_no_data show ?thesis
    by blast
qed

theorem fiscalYears_dense_witness:
  "map year (fiscalYears (normalizeFinancials demo_facts ''demo'' None 2020 2022)) = [2020, 2021, 2022]
   \<and> length (fiscalYears (normalizeFinancials demo_facts ''demo'' None 2020 2022)) = 3
   \<and> fiscalYears (normalizeFinancials demo_facts ''demo'' None 2020 2022) ! 0 = blank_year 2020"
proof -
  let ?fys = "fiscalYears (normalizeFinancials demo_facts ''demo'' None 2020 2022)"
  have le: "(2020::int) \<le> 2022" by simp
  note t = fiscalYears_dense [OF le, of demo_facts "''demo''" None]
  from t have y: "map year ?fys = [2020, 2021, 2022]"
    by simp
  from t have len: "length ?fys = 3"
    by simp
  have nd: "\<not> yearHasData demo_facts 2020 2022 2020"
    by (simp add: yearHasData_def demo_facts_def facts_of_def usGaapEntries_def concept_usd_def
        usdValues_def eligible_def obs_def)
  have mem: "?fys ! 0 \<in> set ?fys"
    using len by (simp add: nth_mem)
  have "year (?fys ! 0) = map year ?fys ! 0"
    using len by (simp add: nth_map)
  then have y0: "year (?fys ! 0) = 2020"
    by (simp add: y)
  from t mem nd y0 have "?fys ! 0 = blank_year 2020"
    by (metis (no_types, lifting))
  with y len show ?thesis by simp
qed

section \<open>Observations the filter rejects\<close>

lemma applyValue_ineligible: "\<not> eligible s e v \<Longrightarrow> applyValue nm s e yd v = yd"
  by (simp add: applyValue_def)

lemma foldl_applyValue_filter:
  "foldl (applyValue nm s e) yd (filter (eligible s e) vs) = foldl (applyValue nm s e) yd vs"
  by (induction vs arbitrary: yd) (simp_all add: applyValue_ineligible)

lemma processConcept_yearData_cong:
  assumes "fst e1 = fst e2"
    and "filter (eligible s e) (usdValues (snd e1)) = filter (eligible s e) (usdValues (snd e2))"
    and "snd st1 = snd st2"
  shows "snd (processConcept s e st1 e1) = snd (processConcept s e st2 e2)"
proof -
  have "foldl (applyValue nm s e) (snd st1) (usdValues (snd e1))
      = foldl (applyValue nm s e) (snd st2) (usdValues (snd e2))" for nm
    using foldl_applyValue_filter [of nm s e "snd st1" "usdValues (snd e1)"]
      foldl_applyValue_filter [of nm s e "snd st2" "usdValues (snd e2)"] assms(2,3)
    by simp
  then show ?thesis
    by (simp add: processConcept_def Let_def assms(1,3) split: option.splits)
qed

lemma processConcept_rawMetrics_cong:
  assumes "fst e1 = fst e2"
    and "filter (eligible s e) (usdValues (snd e1)) = filter (eligible s e) (usdValues (snd e2))"
    and "(usdValues (snd e1) = []) = (usdValues (snd e2) = [])"
    and "fst st1 = fst st2"
  shows "fst (processConcept s e st1 e1) = fst (processConcept s e st2 e2)"
  using assms by (simp add: processConcept_def Let_def)

lemma foldl_processConcept_yearData_cong:
  assumes "list_all2 (\<lambda>e1 e2. fst e1 = fst e2
            \<and> filter (eligible s e) (usdValues (snd e1)) = filter (eligible s e) (usdValues (snd e2)))
          es1 es2"
    and "snd st1 = snd st2"
  shows "snd (foldl (processConcept s e) st1 es1) = snd (foldl (processConcept s e) st2 es2)"
  using assms
proof (induction es1 es2 arbitrary: st1 st2 rule: list_all2_induct)
  case Nil
  then show ?case by simp
next
  case (Cons x xs y ys)
  have "snd (processConcept s e st1 x) = snd (processConcept s e st2 y)"
    using Cons.hyps(1) Cons.prems by (intro processConcept_yearData_cong) simp_all
  then show ?case
    by (simp add: Cons.IH)
qed

lemma foldl_processConcept_cong:
  assumes "list_all2 (\<lambda>e1 e2. fst e1 = fst e2
            \<and> filter (eligible s e) (usdValues (snd e1)) = filter (eligible s e) (usdValues (snd e2)))
          es1 es2"
    and "list_all2 (\<lambda>e1 e2. (usdValues (snd e1) = []) = (usdValues (snd e2) = [])) es1 es2"
  shows "foldl (processConcept s e) st es1 = foldl (processConcept s e) st es2"
  using assms
proof (induction es1 es2 arbitrary: st rule: list_all2_induct)
  case Nil
  then show ?case by simp
next
  case (Cons x xs y ys)
  have a: "fst (processConcept s e st x) = fst (processConcept s e st y)"
    using Cons.hyps(1) Cons.prems by (intro processConcept_rawMetrics_cong) simp_all
  have b: "snd (processConcept s e st x) = snd (processConcept s e st y)"
    using Cons.hyps(1) by (intro processConcept_yearData_cong) simp_all
  have "processConcept s e st x = processConcept s e st y"
    using a b by (rule prod_eqI)
  moreover have "list_all2 (\<lambda>e1 e2. (usdValues (snd e1) = []) = (usdValues (snd e2) = [])) xs ys"
    using Cons.prems by simp
  ultimately show ?case
    using Cons.IH by simp
qed

lemma rawMetrics_normalize:
  "rawMetrics (normalizeFinancials facts tkr sic s e)
   = fst (foldl (processConcept s e) (Map.empty, initYears s e []) (usGaapEntries facts))"
  by (simp add: normalizeFinancials_def Let_def)

lemma processConcept_rawMetrics:
  "fst (processConcept s e st entry) =
     (if usdValues (snd entry) \<noteq> []
      then (fst st)(fst entry \<mapsto> map toMetricData (filter (eligible s e) (usdValues (snd entry))))
      else fst st)"
  by (simp add: processConcept_def Let_def)

lemma foldl_processConcept_rawMetrics:
  assumes "distinct (map fst es)"
  shows "fst (foldl (processConcept s e) st es) c =
     (case map_of es c of
        None \<Rightarrow> fst st c
      | Some d \<Rightarrow>
          if usdValues d \<noteq> []
          then Some (map toMetricData (filter (eligible s e) (usdValues d)))
          else fst st c)"
  using assms
proof (induction es arbitrary: st)
  case Nil
  then show ?case by simp
next
  case (Cons x es)
  obtain c0 d0 where x: "x = (c0, d0)" by (cases x)
  from Cons.prems have fresh: "map_of es c0 = None" and dist: "distinct (map fst es)"
    by (simp_all add: x map_of_eq_None_iff)
  show ?case
  proof (cases "c = c0")
    case True
    then show ?thesis
      using Cons.IH [OF dist, of "processConcept s e st x"] fresh
      by (simp add: x processConcept_rawMetrics)
  next
    case False
    then show ?thesis
      using Cons.IH [OF dist, of "processConcept s e st x"]
      by (simp add: x processConcept_rawMetrics split: option.splits)
  qed
qed

lemma rawMetrics_lookup:
  assumes "distinct (map fst (usGaapEntries facts))"
  shows "rawMetrics (normalizeFinancials facts tkr sic s e) c =
     (case map_of (usGaapEntries facts) c of
        None \<Rightarrow> None
      | Some d \<Rightarrow>
          if usdValues d \<noteq> []
          then Some (map toMetricData (filter (eligible s e) (usdValues d)))
          else None)"
  using foldl_processConcept_rawMetrics [OF assms, of s e "(Map.empty, initYears s e [])" c]
  by (simp add: rawMetrics_normalize split: option.splits)

lemma list_all2_map_of:
  assumes "list_all2 (\<lambda>e1 e2. fst e1 = fst e2 \<and> P (snd e1) (snd e2)) es1 es2"
    and "map_of es1 c = Some d1" and "map_of es2 c = Some d2"
  shows "P d1 d2"
  using assms
proof (induction es1 es2 rule: list_all2_induct)
  case Nil
  then show ?case by simp
next
  case (Cons x xs y ys)
  then show ?case
    by (cases x; cases y) (auto split: if_splits)
qed

lemma rawMetrics_same_lists:
  assumes "sameEligible s e f1 f2" and "distinct (map fst (usGaapEntries f1))"
    and "rawMetrics (normalizeFinancials f1 tkr sic s e) c = Some m1"
    and "rawMetrics (normalizeFinancials f2 tkr sic s e) c = Some m2"
  shows "m1 = m2"
proof -
  from assms(1) have rel: "list_all2 (\<lambda>e1 e2. fst e1 = fst e2
            \<and> filter (eligible s e) (usdValues (snd e1)) = filter (eligible s e) (usdValues (snd e2)))
          (usGaapEntries f1) (usGaapEntries f2)"
    by (simp add: sameEligible_def)
  then have "map fst (usGaapEntries f1) = map fst (usGaapEntries f2)"
    by (induction rule: list_all2_induct) simp_all
  with assms(2) have d2: "distinct (map fst (usGaapEntries f2))" by simp
  from assms(3) obtain d1 where l1: "map_of (usGaapEntries f1) c = Some d1"
    and v1: "m1 = map toMetricData (filter (eligible s e) (usdValues d1))"
    by (auto simp: rawMetrics_lookup [OF assms(2)] split: option.splits if_splits)
  from assms(4) obtain d2' where l2: "map_of (usGaapEntries f2) c = Some d2'"
    and v2: "m2 = map toMetricData (filter (eligible s e) (usdValues d2'))"
    by (auto simp: rawMetrics_lookup [OF d2] split: option.splits if_splits)
  have "filter (eligible s e) (usdValues d1) = filter (eligible s e) (usdValues d2')"
    using list_all2_map_of [OF rel l1 l2] .
  then show ?thesis
    by (simp add: v1 v2)
qed

text \<open>
  C5, as the code has it. Two inputs that differ only in observations whose form is not
  10-K or whose fiscal year is outside the range produce the same fiscalYears and the same
  identity fields, and the same list under every rawMetrics key that both outputs have.
  They produce the same output altogether provided each concept has an empty list of
  observations in both inputs or in neither: the rejected observations decide at most
  whether a concept's key is present in rawMetrics.
\<close>

theorem ineligible_observations_ignored:
  assumes "sameEligible s e f1 f2"
  shows "fiscalYears (normalizeFinancials f1 tkr sic s e) = fiscalYears (normalizeFinancials f2 tkr sic s e)
    \<and> cik (normalizeFinancials f1 tkr sic s e) = cik (normalizeFinancials f2 tkr sic s e)
    \<and> entityName (normalizeFinancials f1 tkr sic s e) = entityName (normalizeFinancials f2 tkr sic s e)
    \<and> ticker (normalizeFinancials f1 tkr sic s e) = ticker (normalizeFinancials f2 tkr sic s e)
    \<and> sicCode (normalizeFinancials f1 tkr sic s e) = sicCode (normalizeFinancials f2 tkr sic s e)
    \<and> (distinct (map fst (usGaapEntries f1))
        \<longrightarrow> (\<forall>c m1 m2. rawMetrics (normalizeFinancials f1 tkr sic s e) c = Some m1
              \<and> rawMetrics (normalizeFinancials f2 tkr sic s e) c = Some m2 \<longrightarrow> m1 = m2))
    \<and> (sameUsdPresence f1 f2
        \<longrightarrow> normalizeFinancials f1 tkr sic s e = normalizeFinancials f2 tkr sic s e)"
proof -
  from assms have ids: "sf_cik f1 = sf_cik f2" "sf_entityName f1 = sf_entityName f2"
    and rel: "list_all2 (\<lambda>e1 e2. fst e1 = fst e2
            \<and> filter (eligible s e) (usdValues (snd e1)) = filter (eligible s e) (usdValues (snd e2)))
          (usGaapEntries f1) (usGaapEntries f2)"
    by (simp_all add: sameEligible_def)
  have yd: "snd (foldl (processConcept s e) (Map.empty, initYears s e []) (usGaapEntries f1))
      = snd (foldl (processConcept s e) (Map.empty, initYears s e []) (usGaapEntries f2))"
    using rel by (rule foldl_processConcept_yearData_cong) simp
  have fys: "fiscalYears (normalizeFinancials f1 tkr sic s e)
      = fiscalYears (normalizeFinancials f2 tkr sic s e)"
    by (simp add: normalizeFinancials_def Let_def yd)
  have whole: "normalizeFinancials f1 tkr sic s e = normalizeFinancials f2 tkr sic s e"
    if "sameUsdPresence f1 f2"
  proof -
    have "foldl (processConcept s e) (Map.empty, initYears s e []) (usGaapEntries f1)
      = foldl (processConcept s e) (Map.empty, initYears s e []) (usGaapEntries f2)"
      using rel that unfolding sameUsdPresence_def by (rule foldl_processConcept_cong)
    then show ?thesis
      by (simp add: normalizeFinancials_def Let_def ids)
  qed
  have ident: "cik (normalizeFinancials f1 tkr sic s e) = cik (normalizeFinancials f2 tkr sic s e)
    \<and> entityName (normalizeFinancials f1 tkr sic s e) = entityName (normalizeFinancials f2 tkr sic s e)
    \<and> ticker (normalizeFinancials f1 tkr sic s e) = ticker (normalizeFinancials f2 tkr sic s e)
    \<and> sicCode (normalizeFinancials f1 tkr sic s e) = sicCode (normalizeFinancials f2 tkr sic s e)"
    by (simp add: normalizeFinancials_def Let_def ids)
  have lists: "distinct (map fst (usGaapEntries f1))
        \<longrightarrow> (\<forall>c m1 m2. rawMetrics (normalizeFinancials f1 tkr sic s e) c = Some m1
              \<and> rawMetrics (normalizeFinancials f2 tkr sic s e) c = Some m2 \<longrightarrow> m1 = m2)"
    using rawMetrics_same_lists [OF assms] by blast
  from fys ident lists whole show ?thesis
    by blast
qed

theorem ineligible_observations_ignored_witness:
  "normalizeFinancials demo_facts ''demo'' None 2020 2022
   = normalizeFinancials demo_facts_annual ''demo'' None 2020 2022"
proof -
  have a: "sameEligible 2020 2022 demo_facts demo_facts_annual"
    by (simp add: sameEligible_def demo_facts_def demo_facts_annual_def facts_of_def
        usGaapEntries_def concept_usd_def usdValues_def eligible_def obs_def)
  have b: "sameUsdPresence demo_facts demo_facts_annual"
    by (simp add: sameUsdPresence_def demo_facts_def demo_facts_annual_def facts_of_def
        usGaapEntries_def concept_usd_def usdValues_def)
  from ineligible_observations_ignored [OF a, of "''demo''" None] b show ?thesis
    by blast
qed

text \<open>
  A concept whose only observation is a quarterly one keeps its key in rawMetrics, with an
  empty list; without that observation the key is missing.
\<close>

theorem ineligible_observation_counterexample:
  "sameEligible 2020 2022 quarterly_only_facts no_observation_facts
   \<and> normalizeFinancials quarterly_only_facts ''demo'' None 2020 2022
       \<noteq> normalizeFinancials no_observation_facts ''demo'' None 2020 2022"
proof -
  have a: "sameEligible 2020 2022 quarterly_only_facts no_observation_facts"
    by (simp add: sameEligible_def quarterly_only_facts_def no_observation_facts_def facts_of_def
        usGaapEntries_def concept_usd_def usdValues_def eligible_def obs_def)
  have "rawMetrics (normalizeFinancials quarterly_only_facts ''demo'' None 2020 2022) ''Goodwill''
      = Some []"
    by (simp add: rawMetrics_normalize quarterly_only_facts_def facts_of_def usGaapEntries_def
        processConcept_def Let_def concept_usd_def usdValues_def eligible_def obs_def)
  moreover have "rawMetrics (normalizeFinancials no_observation_facts ''demo'' None 2020 2022) ''Goodwill''
      = None"
    by (simp add: rawMetrics_normalize no_observation_facts_def facts_of_def usGaapEntries_def
        processConcept_def Let_def concept_usd_def usdValues_def)
  ultimately have "normalizeFinancials quarterly_only_facts ''demo'' None 2020 2022
       \<noteq> normalizeFinancials no_observation_facts ''demo'' None 2020 2022"
    by (metis option.distinct(1))
  with a show ?thesis by simp
qed

section \<open>Cash and equivalents\<close>

lemma latest_mem:
  assumes "getLatestYearData d = Some (y, l)"
  shows "l \<in> set (fiscalYears d)"
proof -
  from assms obtain rest where "sortedYears d = l # rest"
    by (auto simp: getLatestYearData_def split: list.splits)
  then have "l \<in> set (sort_key (\<lambda>r. - year r) (fiscalYears d))"
    by (simp add: sortedYears_def)
  then show ?thesis by simp
qed

lemma cash_normalize:
  "r \<in> set (fiscalYears (normalizeFinancials facts tkr sic s e)) \<Longrightarrow> cashAndEquivalents r = None"
  by (auto simp: fiscalYears_normalize finalizeYear_def)

lemma filter_low_cash:
  "filter (\<lambda>f. rf_id f = ''low-cash'') (generateRiskFlags b l p) = cashFlags l"
proof -
  have "filter (\<lambda>f. rf_id f = ''low-cash'') (liquidityFlags l) = []"
    by (simp add: liquidityFlags_def split: option.splits)
  moreover have "filter (\<lambda>f. rf_id f = ''low-cash'') (leverageFlags b l) = []"
    by (simp add: leverageFlags_def split: option.splits)
  moreover have "filter (\<lambda>f. rf_id f = ''low-cash'') (profitabilityFlags b l) = []"
    by (simp add: profitabilityFlags_def split: option.splits)
  moreover have "filter (\<lambda>f. rf_id f = ''low-cash'') (revenueFlags l p) = []"
    by (simp add: revenueFlags_def Let_def split: option.splits)
  moreover have "filter (\<lambda>f. rf_id f = ''low-cash'') (cashFlags l) = cashFlags l"
    by (simp add: cashFlags_def Let_def)
  moreover have "filter (\<lambda>f. rf_id f = ''low-cash'') (dataQualityFlags l) = []"
    by (simp add: dataQualityFlags_def)
  ultimately show ?thesis
    by (simp add: generateRiskFlags_def)
qed

text \<open>
  C9. No record of a Normalizer output has a cashAndEquivalents value. Hence in every
  analysis of a Normalizer output the quick ratio is null and classified warning, and no
  flag with identifier low-cash is raised.
\<close>

theorem cash_never_populated:
  assumes "useCreditAnalysis (Some (normalizeFinancials facts tkr sic s e)) = Some a"
  shows "list_all (\<lambda>r. cashAndEquivalents r = None)
           (fiscalYears (normalizeFinancials facts tkr sic s e))
    \<and> cr_name (ratios a ! 5) = ''Quick Ratio''
    \<and> cr_value (ratios a ! 5) = None
    \<and> cr_status (ratios a ! 5) = StatusWarning
    \<and> filter (\<lambda>f. rf_id f = ''low-cash'') (riskFlags a) = []"
proof -
  let ?d = "normalizeFinancials facts tkr sic s e"
  from assms obtain y l where l: "getLatestYearData ?d = Some (y, l)"
    and a: "a = analyse (getBenchmarks (sicCode ?d)) l (getPreviousYearData ?d)"
    by (auto elim: useCreditAnalysis_latest)
  have all: "list_all (\<lambda>r. cashAndEquivalents r = None) (fiscalYears ?d)"
    by (simp add: list_all_iff cash_normalize)
  have cash: "cashAndEquivalents l = None"
    using latest_mem [OF l] by (rule cash_normalize)
  then have q: "quickRatio_of l = None"
    by (simp add: quickRatio_of_def truthy_def)
  have r5: "cr_name (ratios a ! 5) = ''Quick Ratio'' \<and> cr_value (ratios a ! 5) = None
      \<and> cr_status (ratios a ! 5) = StatusWarning"
    by (simp add: a analyse_ratios computeRatios_def q calculateRatioStatus_def)
  have "cashFlags l = []"
    by (simp add: cashFlags_def cash truthy_def)
  then have "filter (\<lambda>f. rf_id f = ''low-cash'') (riskFlags a) = []"
    by (simp add: a analyse_riskFlags filter_low_cash)
  with all r5 show ?thesis by simp
qed

theorem cash_never_populated_witness:
  "useCreditAnalysis (Some (normalizeFinancials demo_facts ''demo'' None 2020 2022)) \<noteq> None
   \<and> cr_value (ratios (the (useCreditAnalysis
        (Some (normalizeFinancials demo_facts ''demo'' None 2020 2022)))) ! 5) = None
   \<and> cr_status (ratios (the (useCreditAnalysis
        (Some (normalizeFinancials demo_facts ''demo'' None 2020 2022)))) ! 5) = StatusWarning
   \<and> filter (\<lambda>f. rf_id f = ''low-cash'') (riskFlags (the (useCreditAnalysis
        (Some (normalizeFinancials demo_facts ''demo'' None 2020 2022))))) = []"
proof -
  let ?d = "normalizeFinancials demo_facts ''demo'' None 2020 2022"
  have "map year (fiscalYears ?d) \<noteq> []"
    by (simp add: years_normalize)
  then have "fiscalYears ?d \<noteq> []" by auto
  then have ne: "useCreditAnalysis (Some ?d) \<noteq> None"
    by (simp add: useCreditAnalysis_None_iff)
  then have h: "useCreditAnalysis (Some ?d) = Some (the (useCreditAnalysis (Some ?d)))"
    by simp
  from cash_never_populated [OF h] ne show ?thesis
    by blast
qed

end
